theory Spec2Isabelle
  imports
    Complex_Main
    "HOL-Library.Word"
    "HOL-Library.Multiset"
    "HOL-Library.Product_Lexorder"
begin

unbundle bit_operations_syntax

section \<open>The WebGPU renderer of solid-webgpu and its PBR material\<close>

text \<open>
  The development embeds \<^verbatim>\<open>WebGPURenderer\<close> (its resource cache, the per-mesh
  pipeline assembly, the draw order and the frame loop), the \<^verbatim>\<open>Camera\<close> component's
  view-matrix effect and the setters of \<^verbatim>\<open>PBRMaterial\<close>.

  Conventions of the embedding.
  \<^item> JavaScript objects that are compared by identity or mutated in place live in a store
    and are named by a reference (\<open>ref\<close>); everything else is a value.
  \<^item> The GPU device, its queue and the render pass encoder are the host's. Every call to
    them is appended to one chronological log (\<open>commands\<close>); an object the device creates
    is a fresh handle.
  \<^item> A JavaScript number is a real number. Rounding on a store into a
    \<^verbatim>\<open>Float32Array\<close> is not modelled; \<^verbatim>\<open>NaN\<close> and the infinities are modelled
    where the renderer computes a draw count (\<open>number\<close>).
  \<^item> The leading underscore of a private member is dropped (\<open>cached\<close> is
    \<^verbatim>\<open>_cached\<close>), and a name that is a keyword of Isabelle gets a prime
    (\<open>value'\<close>).
\<close>

subsection \<open>Numbers\<close>

datatype number = Num real | Infinity | NegInfinity | NaN

text \<open>\<^verbatim>\<open>Math.min\<close> on two arguments: \<^verbatim>\<open>NaN\<close> wins, then the smaller.\<close>

fun Math_min :: "number \<Rightarrow> number \<Rightarrow> number" where
  "Math_min NaN b = NaN"
| "Math_min a NaN = NaN"
| "Math_min NegInfinity b = NegInfinity"
| "Math_min a NegInfinity = NegInfinity"
| "Math_min Infinity b = b"
| "Math_min a Infinity = a"
| "Math_min (Num a) (Num b) = Num (min a b)"

text \<open>The quotient \<^verbatim>\<open>a / b\<close> of two array lengths or sizes (non-negative integers).\<close>

definition divide_lengths :: "nat \<Rightarrow> nat \<Rightarrow> number" where
  "divide_lengths a b =
     (if b = 0 then (if a = 0 then NaN else Infinity) else Num (real a / real b))"

text \<open>The decimal digits of an index, as a template literal prints it.\<close>

fun digits :: "nat \<Rightarrow> string" where
  "digits n =
     (if n < 10 then [char_of (48 + n)] else digits (n div 10) @ [char_of (48 + n mod 10)])"

declare digits.simps [simp del]

subsection \<open>CPU-side descriptors\<close>

type_synonym ref = nat
type_synonym handle = nat
type_synonym Mat4 = "real list"
type_synonym Vec3 = "real \<times> real \<times> real"

record TypedArray =
  elems :: "real list"
  BYTES_PER_ELEMENT :: nat
  byteOffset :: nat

text \<open>
  The data of a buffer is a typed array (held by value) or an \<^verbatim>\<open>ArrayBuffer\<close> (held by
  reference: \<^verbatim>\<open>PBRMaterial\<close> writes its buffer through views). An \<^verbatim>\<open>ArrayBuffer\<close> is
  stored as its 4-byte cells, each holding the number last written through a 4-byte view.
\<close>

datatype BufferSource = View TypedArray | ArrayBuffer ref

record GPUTextureDescriptor =
  descriptor_size :: "nat list"
  descriptor_format :: "string option"
  descriptor_usage :: "32 word option"

type_synonym GPUSamplerDescriptor = "(string \<times> string) list"

datatype Uniform =
    UniformBuffer (value': BufferSource) (needsUpdate: "bool option")
  | Texture (descriptor: GPUTextureDescriptor) (image: "string option") (needsUpdate: "bool option")
  | ExternalTexture (descriptor: GPUTextureDescriptor) (needsUpdate: "bool option")
  | Sampler (sampler_descriptor: GPUSamplerDescriptor) (needsUpdate: "bool option")

fun set_needsUpdate :: "bool \<Rightarrow> Uniform \<Rightarrow> Uniform" where
  "set_needsUpdate b (UniformBuffer v n) = UniformBuffer v (Some b)"
| "set_needsUpdate b (Texture d i n) = Texture d i (Some b)"
| "set_needsUpdate b (ExternalTexture d n) = ExternalTexture d (Some b)"
| "set_needsUpdate b (Sampler d n) = Sampler d (Some b)"

record GPUVertexBufferLayout =
  arrayStride :: nat
  attributes :: "(string \<times> nat \<times> nat) list"

record VertexAttribute =
  attribute_name :: string
  attribute_type :: string

record VertexBuffer =
  buffer :: TypedArray
  layout :: GPUVertexBufferLayout
  attribute :: "VertexAttribute option"
  vb_needsUpdate :: "bool option"

record IndexBuffer =
  ib_ref :: ref
  ib_buffer :: TypedArray

record Geometry =
  topology :: "string option"
  vertexBuffers :: "ref list"
  indexBuffer :: "IndexBuffer option"
  drawRange_start :: "nat option"
  drawRange_count :: number
  instanceCount :: nat

record Material =
  shaderCode :: string
  uniforms :: ref
  transparent :: bool
  cullMode :: "string option"
  depthWrite :: bool
  depthTest :: bool
  blending :: "string option"

record Mesh =
  mesh_ref :: ref
  matrix :: Mat4
  geometry :: Geometry
  material :: Material

text \<open>
  A node of the scene graph; \<open>as_mesh\<close> is \<open>Some\<close> exactly when the node is an instance of
  \<^verbatim>\<open>Mesh\<close>.
\<close>

datatype Object3D = Object3D (visible: bool) (as_mesh: "Mesh option") (children: "Object3D list")

record Camera =
  camera_matrix :: Mat4
  projectionMatrix :: Mat4
  viewMatrix :: Mat4
  projectionViewMatrix :: Mat4
  position :: Vec3
  matrixAutoUpdate :: bool

record pipelineOption =
  option_transparent :: bool
  option_cullMode :: "string option"
  option_topology :: "string option"
  depthWriteEnabled :: bool
  depthCompare :: string
  vertexBufferLayouts :: "GPUVertexBufferLayout list"
  option_blending :: "string option"
  colorAttachments :: nat
  option_samples :: nat

subsection \<open>The collaborators that are not part of the renderer\<close>

text \<open>
  The math library (\<^verbatim>\<open>./math\<close>), the scene graph's and the camera's
  \<^verbatim>\<open>updateMatrix\<close> and the host's \<^verbatim>\<open>JSON.stringify\<close> are parameters of the
  renderer: pure functions, as the specification assumes them. Every theorem below holds
  for all of them.
\<close>

record lib =
  Mat4_mul :: "Mat4 \<Rightarrow> Mat4 \<Rightarrow> Mat4"
  Mat3_normalFromMat4 :: "Mat4 \<Rightarrow> real list"
  Vec3_transformMat4 :: "Vec3 \<Rightarrow> Mat4 \<Rightarrow> Vec3"
  Object3D_updateMatrix :: "Object3D \<Rightarrow> Object3D"
  Camera_updateMatrix :: "Camera \<Rightarrow> Camera"
  JSON_stringify :: "pipelineOption \<Rightarrow> string"

text \<open>
  Modelled from the spec: \<^verbatim>\<open>Object3D.traverse\<close> is not among the sources. The walk is
  depth first; the callback's result \<open>True\<close> skips the node's subtree. The callback of the
  model returns that flag together with what it appends to the list it fills.
\<close>

fun traverse :: "(Object3D \<Rightarrow> bool \<times> 'a list) \<Rightarrow> Object3D \<Rightarrow> 'a list" where
  "traverse callback (Object3D v m cs) =
     (case callback (Object3D v m cs) of
        (halt, out) \<Rightarrow>
          out @ (if halt then [] else concat (map (traverse callback) cs)))"

subsection \<open>The draw order\<close>

text \<open>
  \<^verbatim>\<open>Array.prototype.sort\<close> is the host's. ECMAScript requires it to be stable and, for a
  consistent comparator, to return the list in the comparator's order, which is then
  unique; the model computes that list by insertion. An element goes before the first
  element the comparator does not put it after.
\<close>

fun insert_by :: "('a \<Rightarrow> 'a \<Rightarrow> real) \<Rightarrow> 'a \<Rightarrow> 'a list \<Rightarrow> 'a list" where
  "insert_by cmp x [] = [x]"
| "insert_by cmp x (y # ys) = (if cmp x y \<le> 0 then x # y # ys else y # insert_by cmp x ys)"

definition Array_sort :: "('a \<Rightarrow> 'a \<Rightarrow> real) \<Rightarrow> 'a list \<Rightarrow> 'a list" where
  "Array_sort cmp xs = foldr (insert_by cmp) xs []"

text \<open>The node's world translation, projected: the \<open>z\<close> the comparator reads.\<close>

definition projected_z :: "lib \<Rightarrow> Camera \<Rightarrow> Mesh \<Rightarrow> real" where
  "projected_z l camera a =
     (case Vec3_transformMat4 l (matrix a ! 12, matrix a ! 13, matrix a ! 14)
             (projectionViewMatrix camera) of
        (x, y, z) \<Rightarrow> z)"

text \<open>
  The comparator of \<^verbatim>\<open>sort\<close>. A boolean read as a number is 0 or 1, and
  \<^verbatim>\<open>res || e\<close> is \<open>e\<close> exactly when \<open>res\<close> is 0.
\<close>

definition sort_compare :: "lib \<Rightarrow> Camera option \<Rightarrow> Mesh \<Rightarrow> Mesh \<Rightarrow> real" where
  "sort_compare l camera a b =
     (let res = of_bool (depthTest (material b)) - of_bool (depthTest (material a));
          res = (case camera of
                   None \<Rightarrow> res
                 | Some c \<Rightarrow>
                     (let tempZ = projected_z l c b
                      in if res \<noteq> 0 then res else tempZ - projected_z l c a))
      in if res \<noteq> 0 then res
         else of_bool (transparent (material a)) - of_bool (transparent (material b)))"

definition sort_callback :: "Object3D \<Rightarrow> bool \<times> Mesh list" where
  "sort_callback node =
     (if \<not> visible node then (True, [])
      else case as_mesh node of None \<Rightarrow> (False, []) | Some m \<Rightarrow> (False, [m]))"

definition update_projectionView :: "lib \<Rightarrow> Camera \<Rightarrow> Camera" where
  "update_projectionView l camera =
     (if matrixAutoUpdate camera
      then camera\<lparr>projectionViewMatrix := Mat4_mul l (projectionMatrix camera) (viewMatrix camera)\<rparr>
      else camera)"

text \<open>
  \<^verbatim>\<open>sort(scene, camera)\<close>: the list it returns, and the camera as it leaves it.
\<close>

definition sort_scene :: "lib \<Rightarrow> Object3D \<Rightarrow> Camera option \<Rightarrow> Mesh list \<times> Camera option" where
  "sort_scene l scene camera =
     (let camera = map_option (update_projectionView l) camera;
          renderList = traverse sort_callback scene
      in (Array_sort (sort_compare l camera) renderList, camera))"

text \<open>The sort key the comparator amounts to, in lexicographic order.\<close>

definition sort_key_of :: "lib \<Rightarrow> Camera option \<Rightarrow> Mesh \<Rightarrow> bool \<times> real \<times> bool" where
  "sort_key_of l camera a =
     (\<not> depthTest (material a),
      (case camera of None \<Rightarrow> 0 | Some c \<Rightarrow> - projected_z l c a),
      transparent (material a))"

subsection \<open>The device, its log and the program state\<close>

record GPUTexture =
  texture_id :: handle
  texture_sampleCount :: nat

record GPURenderPipeline =
  pipeline_id :: handle
  pipeline_label :: string

datatype resource_kind = buffer_kind | texture_kind | sampler_kind

type_synonym GPUBindGroupLayoutEntry = "nat \<times> 32 word \<times> resource_kind"

datatype GPUBindingResource = BufferResource handle | ViewResource handle | SamplerResource handle

type_synonym GPUBindGroupEntry = "nat \<times> GPUBindingResource"

record GPURenderPipelineDescriptor =
  descriptor_layout :: handle
  descriptor_label :: string
  descriptor_module :: handle
  descriptor_buffers :: "GPUVertexBufferLayout list"
  descriptor_target_format :: string
  descriptor_cullMode :: "string option"
  descriptor_topology :: "string option"
  descriptor_depthWriteEnabled :: bool
  descriptor_depthCompare :: string
  descriptor_multisample_count :: nat

text \<open>
  One constructor per call the renderer makes to the context, the device, a texture, the
  queue, the command encoder and the pass encoder. \<open>WriteBuffer b off n xs\<close> is
  \<^verbatim>\<open>queue.writeBuffer(b, off, data)\<close> for data of \<open>n\<close> bytes with the elements \<open>xs\<close>;
  \<open>Draw c i f\<close> and \<open>DrawIndexed c i f\<close> carry the count, the instance count and the
  first vertex or index.
\<close>

datatype GPUCommand =
    Configure string
  | CreateTexture handle string "nat list" "32 word" nat
  | DestroyTexture handle
  | CreateView handle handle
  | CreateBuffer handle "string option" nat "32 word"
  | WriteBuffer handle nat nat "real list"
  | CopyExternalImageToTexture string handle "nat list"
  | CreateSampler handle GPUSamplerDescriptor
  | CreateBindGroupLayout handle "GPUBindGroupLayoutEntry list"
  | CreateShaderModule handle string
  | CreatePipelineLayout handle "handle list"
  | CreateRenderPipeline handle GPURenderPipelineDescriptor
  | CreateBindGroup handle handle "GPUBindGroupEntry list"
  | GetCurrentTexture handle
  | CreateCommandEncoder handle
  | BeginRenderPass handle "handle option" handle "handle option" bool
  | SetViewport nat nat
  | SetPipeline handle
  | SetIndexBuffer handle string
  | SetVertexBuffer nat handle
  | SetBindGroup nat handle
  | Draw number nat nat
  | DrawIndexed number nat nat
  | EndPass
  | Finish handle handle
  | Submit "handle list"

text \<open>
  The state: the renderer's fields, the device's counter of handles and log, and the
  CPU-side objects the renderer reads by reference. The renderer's one
  \<^verbatim>\<open>WeakMap\<close> is keyed by object identity; objects of different classes are different
  objects, so the model keeps its entries in one map per class of key and type of value.
\<close>

record state =
  canvas_width :: nat
  canvas_height :: nat
  format :: string
  autoClear :: bool
  samples :: nat
  msaaTexture :: "GPUTexture option"
  msaaTextureView :: "handle option"
  depthTexture :: "GPUTexture option"
  depthTextureView :: "handle option"
  uniformsCache :: "ref \<rightharpoonup> ref list \<times> handle"
  uniformBufferCache :: "ref \<rightharpoonup> handle"
  textureCache :: "ref \<rightharpoonup> GPUTexture"
  samplerCache :: "ref \<rightharpoonup> handle"
  pipelineCache :: "ref \<rightharpoonup> GPURenderPipeline"
  indexBufferCache :: "ref \<rightharpoonup> handle"
  vertexBufferCache :: "ref \<rightharpoonup> handle"
  next_handle :: handle
  commands :: "GPUCommand list"
  uniform_objects :: "ref \<Rightarrow> Uniform"
  uniform_arrays :: "ref \<Rightarrow> ref list"
  vertex_buffer_objects :: "ref \<Rightarrow> VertexBuffer"
  array_buffers :: "ref \<Rightarrow> real list"
  next_ref :: ref

definition emit :: "GPUCommand \<Rightarrow> state \<Rightarrow> state" where
  "emit c s = s\<lparr>commands := commands s @ [c]\<rparr>"

definition fresh_handle :: "state \<Rightarrow> handle \<times> state" where
  "fresh_handle s = (next_handle s, s\<lparr>next_handle := Suc (next_handle s)\<rparr>)"

definition byteLength :: "state \<Rightarrow> BufferSource \<Rightarrow> nat" where
  "byteLength s data =
     (case data of
        View t \<Rightarrow> length (elems t) * BYTES_PER_ELEMENT t
      | ArrayBuffer r \<Rightarrow> 4 * length (array_buffers s r))"

definition contents :: "state \<Rightarrow> BufferSource \<Rightarrow> real list" where
  "contents s data = (case data of View t \<Rightarrow> elems t | ArrayBuffer r \<Rightarrow> array_buffers s r)"

definition device_createTexture ::
  "string \<Rightarrow> nat list \<Rightarrow> 32 word \<Rightarrow> nat \<Rightarrow> state \<Rightarrow> GPUTexture \<times> state" where
  "device_createTexture fmt sz usage sampleCount s =
     (case fresh_handle s of
        (h, s1) \<Rightarrow>
          (\<lparr>texture_id = h, texture_sampleCount = sampleCount\<rparr>,
           emit (CreateTexture h fmt sz usage sampleCount) s1))"

definition texture_destroy :: "GPUTexture \<Rightarrow> state \<Rightarrow> state" where
  "texture_destroy t s = emit (DestroyTexture (texture_id t)) s"

definition texture_createView :: "GPUTexture \<Rightarrow> state \<Rightarrow> handle \<times> state" where
  "texture_createView t s =
     (case fresh_handle s of (h, s1) \<Rightarrow> (h, emit (CreateView h (texture_id t)) s1))"

definition device_createBuffer ::
  "string option \<Rightarrow> nat \<Rightarrow> 32 word \<Rightarrow> state \<Rightarrow> handle \<times> state" where
  "device_createBuffer lbl sz usage s =
     (case fresh_handle s of (h, s1) \<Rightarrow> (h, emit (CreateBuffer h lbl sz usage) s1))"

definition queue_writeBuffer :: "handle \<Rightarrow> nat \<Rightarrow> BufferSource \<Rightarrow> state \<Rightarrow> state" where
  "queue_writeBuffer b bufferOffset data s =
     emit (WriteBuffer b bufferOffset (byteLength s data) (contents s data)) s"

definition device_createSampler :: "GPUSamplerDescriptor \<Rightarrow> state \<Rightarrow> handle \<times> state" where
  "device_createSampler d s =
     (case fresh_handle s of (h, s1) \<Rightarrow> (h, emit (CreateSampler h d) s1))"

definition device_create :: "(handle \<Rightarrow> GPUCommand) \<Rightarrow> state \<Rightarrow> handle \<times> state" where
  "device_create c s = (case fresh_handle s of (h, s1) \<Rightarrow> (h, emit (c h) s1))"

text \<open>The flags of \<^verbatim>\<open>GPUTextureUsage\<close>, \<^verbatim>\<open>GPUBufferUsage\<close> and \<^verbatim>\<open>GPUShaderStage\<close>.\<close>

definition TextureUsage_COPY_SRC :: "32 word" where "TextureUsage_COPY_SRC = 0x01"
definition TextureUsage_COPY_DST :: "32 word" where "TextureUsage_COPY_DST = 0x02"
definition TextureUsage_TEXTURE_BINDING :: "32 word" where "TextureUsage_TEXTURE_BINDING = 0x04"
definition TextureUsage_RENDER_ATTACHMENT :: "32 word" where "TextureUsage_RENDER_ATTACHMENT = 0x10"
definition BufferUsage_COPY_DST :: "32 word" where "BufferUsage_COPY_DST = 0x08"
definition BufferUsage_INDEX :: "32 word" where "BufferUsage_INDEX = 0x10"
definition BufferUsage_VERTEX :: "32 word" where "BufferUsage_VERTEX = 0x20"
definition BufferUsage_UNIFORM :: "32 word" where "BufferUsage_UNIFORM = 0x40"
definition BufferUsage_STORAGE :: "32 word" where "BufferUsage_STORAGE = 0x80"
definition ShaderStage_VERTEX :: "32 word" where "ShaderStage_VERTEX = 0x1"
definition ShaderStage_FRAGMENT :: "32 word" where "ShaderStage_FRAGMENT = 0x2"

subsection \<open>The resource cache\<close>

text \<open>
  Modelled from the spec: \<^verbatim>\<open>weakCached\<close> (\<^verbatim>\<open>./utils\<close>) is not among the sources.
  Section 4.1: on the first lookup for an identity it invokes \<open>onCreate\<close> once, stores the
  result and returns it; on a later lookup, if \<open>stale\<close> holds of the stored object it
  invokes \<open>onCreate\<close> again, replaces the stored object and returns the new one; otherwise
  it returns the stored object unchanged. \<open>onCreate\<close> and \<open>stale\<close> act on the state
  (\<open>onCreate\<close> allocates, \<open>stale\<close> may destroy the outgoing object); the map is read
  and written through \<open>getMap\<close> and \<open>setMap\<close>.
\<close>

definition weakCached ::
  "'k \<Rightarrow> ('s \<Rightarrow> 'u \<times> 's) \<Rightarrow> ('u \<Rightarrow> 's \<Rightarrow> bool \<times> 's) option \<Rightarrow>
   ('s \<Rightarrow> 'k \<rightharpoonup> 'u) \<Rightarrow> (('k \<rightharpoonup> 'u) \<Rightarrow> 's \<Rightarrow> 's) \<Rightarrow> 's \<Rightarrow> 'u \<times> 's" where
  "weakCached k onCreate stale getMap setMap s =
     (let create = (\<lambda>s0. case onCreate s0 of (v, s1) \<Rightarrow> (v, setMap ((getMap s1)(k \<mapsto> v)) s1))
      in case getMap s k of
           None \<Rightarrow> create s
         | Some old \<Rightarrow>
             (case stale of
                None \<Rightarrow> (old, s)
              | Some is_stale \<Rightarrow>
                  (case is_stale old s of
                     (True, s1) \<Rightarrow> create s1
                   | (False, s1) \<Rightarrow> (old, s1))))"

text \<open>
  \<^verbatim>\<open>_cached(k, onCreate, options)\<close>: \<^verbatim>\<open>weakCached\<close> on the renderer's own map; the
  first argument of the model selects the part of the map the key belongs to.
\<close>

type_synonym 'u cache_part = "(state \<Rightarrow> ref \<rightharpoonup> 'u) \<times> ((ref \<rightharpoonup> 'u) \<Rightarrow> state \<Rightarrow> state)"

definition cached ::
  "'u cache_part \<Rightarrow> ref \<Rightarrow> (state \<Rightarrow> 'u \<times> state) \<Rightarrow> ('u \<Rightarrow> state \<Rightarrow> bool \<times> state) option \<Rightarrow>
   state \<Rightarrow> 'u \<times> state" where
  "cached cacheMap k onCreate stale = weakCached k onCreate stale (fst cacheMap) (snd cacheMap)"

definition uniforms_part :: "(ref list \<times> handle) cache_part" where
  "uniforms_part = (uniformsCache, \<lambda>m s. s\<lparr>uniformsCache := m\<rparr>)"

definition uniformBuffer_part :: "handle cache_part" where
  "uniformBuffer_part = (uniformBufferCache, \<lambda>m s. s\<lparr>uniformBufferCache := m\<rparr>)"

definition texture_part :: "GPUTexture cache_part" where
  "texture_part = (textureCache, \<lambda>m s. s\<lparr>textureCache := m\<rparr>)"

definition sampler_part :: "handle cache_part" where
  "sampler_part = (samplerCache, \<lambda>m s. s\<lparr>samplerCache := m\<rparr>)"

definition pipeline_part :: "GPURenderPipeline cache_part" where
  "pipeline_part = (pipelineCache, \<lambda>m s. s\<lparr>pipelineCache := m\<rparr>)"

definition indexBuffer_part :: "handle cache_part" where
  "indexBuffer_part = (indexBufferCache, \<lambda>m s. s\<lparr>indexBufferCache := m\<rparr>)"

definition vertexBuffer_part :: "handle cache_part" where
  "vertexBuffer_part = (vertexBufferCache, \<lambda>m s. s\<lparr>vertexBufferCache := m\<rparr>)"

subsection \<open>Render targets\<close>

definition resizeSwapchain :: "state \<Rightarrow> state" where
  "resizeSwapchain s0 =
     (let s = emit (Configure (format s0)) s0;
          sz = [canvas_width s, canvas_height s];
          usage = TextureUsage_COPY_DST OR TextureUsage_RENDER_ATTACHMENT;
          sampleCount = samples s;
          s = (case msaaTexture s of Some old \<Rightarrow> texture_destroy old s | None \<Rightarrow> s)
      in case device_createTexture (format s) sz usage sampleCount s of
           (msaa, s) \<Rightarrow>
      let s = s\<lparr>msaaTexture := Some msaa\<rparr>
      in case texture_createView msaa s of
           (msaaView, s) \<Rightarrow>
      let s = s\<lparr>msaaTextureView := Some msaaView\<rparr>;
          s = (case depthTexture s of Some old \<Rightarrow> texture_destroy old s | None \<Rightarrow> s)
      in case device_createTexture ''depth24plus-stencil8'' sz usage sampleCount s of
           (depth, s) \<Rightarrow>
      let s = s\<lparr>depthTexture := Some depth\<rparr>
      in case texture_createView depth s of
           (depthView, s) \<Rightarrow> s\<lparr>depthTextureView := Some depthView\<rparr>)"

definition setSize :: "nat \<Rightarrow> nat \<Rightarrow> state \<Rightarrow> state" where
  "setSize width height s = resizeSwapchain (s\<lparr>canvas_width := width, canvas_height := height\<rparr>)"

text \<open>
  The constructor: the fields' initial values on a canvas of the given size, then
  \<^verbatim>\<open>_resizeSwapchain()\<close>. The device and the CPU-side objects are those of the state
  it is given.
\<close>

definition new_WebGPURenderer :: "nat \<Rightarrow> nat \<Rightarrow> string \<Rightarrow> state \<Rightarrow> state" where
  "new_WebGPURenderer width height fmt s =
     resizeSwapchain
       (s\<lparr>canvas_width := width, canvas_height := height, format := fmt, autoClear := True,
          samples := 4, msaaTexture := None, msaaTextureView := None, depthTexture := None,
          depthTextureView := None, uniformsCache := Map.empty,
          uniformBufferCache := Map.empty, textureCache := Map.empty,
          samplerCache := Map.empty, pipelineCache := Map.empty,
          indexBufferCache := Map.empty, vertexBufferCache := Map.empty\<rparr>)"

text \<open>The render-target textures that were created and not destroyed, oldest first.\<close>

fun live_textures :: "GPUCommand list \<Rightarrow> handle list" where
  "live_textures [] = []"
| "live_textures (CreateTexture h f sz u n # cs) =
     (if DestroyTexture h \<in> set cs then live_textures cs else h # live_textures cs)"
| "live_textures (c # cs) = live_textures cs"

subsection \<open>Buffers, samplers and textures\<close>

definition createBuffer ::
  "BufferSource \<Rightarrow> 32 word \<Rightarrow> string option \<Rightarrow> state \<Rightarrow> handle \<times> state" where
  "createBuffer data usage lbl s =
     (case device_createBuffer lbl (byteLength s data)
             (usage OR BufferUsage_COPY_DST OR BufferUsage_STORAGE) s of
        (b, s1) \<Rightarrow> (b, queue_writeBuffer b 0 data s1))"

definition set_uniform_needsUpdate :: "ref \<Rightarrow> bool \<Rightarrow> state \<Rightarrow> state" where
  "set_uniform_needsUpdate r b s =
     s\<lparr>uniform_objects := (uniform_objects s)(r := set_needsUpdate b (uniform_objects s r))\<rparr>"

text \<open>\<^verbatim>\<open>x.needsUpdate ?? false\<close>, and the truth of \<^verbatim>\<open>x.needsUpdate\<close> in a condition.\<close>

definition or_false :: "bool option \<Rightarrow> bool" where
  "or_false f = (case f of Some b \<Rightarrow> b | None \<Rightarrow> False)"

text \<open>The two closures \<^verbatim>\<open>_updateSampler\<close> hands to the cache, and the method.\<close>

definition sampler_onCreate :: "ref \<Rightarrow> state \<Rightarrow> handle \<times> state" where
  "sampler_onCreate sampler s =
     (case device_createSampler (sampler_descriptor (uniform_objects s sampler)) s of
        (target, s1) \<Rightarrow> (target, set_uniform_needsUpdate sampler False s1))"

definition sampler_stale :: "ref \<Rightarrow> handle \<Rightarrow> state \<Rightarrow> bool \<times> state" where
  "sampler_stale sampler old s = (or_false (needsUpdate (uniform_objects s sampler)), s)"

definition updateSampler :: "ref \<Rightarrow> state \<Rightarrow> handle \<times> state" where
  "updateSampler sampler =
     cached sampler_part sampler (sampler_onCreate sampler) (Some (sampler_stale sampler))"

text \<open>The two closures of \<^verbatim>\<open>_updateTexture\<close>, and the method.\<close>

definition texture_onCreate :: "ref \<Rightarrow> state \<Rightarrow> GPUTexture \<times> state" where
  "texture_onCreate texture s =
     (let d = descriptor (uniform_objects s texture)
      in case device_createTexture
                (case descriptor_format d of Some f \<Rightarrow> f | None \<Rightarrow> format s)
                (descriptor_size d)
                ((case descriptor_usage d of Some u \<Rightarrow> u | None \<Rightarrow> 0)
                   OR TextureUsage_TEXTURE_BINDING OR TextureUsage_RENDER_ATTACHMENT
                   OR TextureUsage_COPY_SRC OR TextureUsage_COPY_DST)
                1 s of
           (target, s1) \<Rightarrow>
             let s2 = (case uniform_objects s1 texture of
                         Texture d' (Some img) n \<Rightarrow>
                           emit (CopyExternalImageToTexture img (texture_id target)
                                   (descriptor_size d')) s1
                       | _ \<Rightarrow> s1)
             in (target, set_uniform_needsUpdate texture False s2))"

definition texture_stale :: "ref \<Rightarrow> GPUTexture \<Rightarrow> state \<Rightarrow> bool \<times> state" where
  "texture_stale texture old s =
     (let res = or_false (needsUpdate (uniform_objects s texture))
      in (res, if res then texture_destroy old s else s))"

definition updateTexture :: "ref \<Rightarrow> state \<Rightarrow> GPUTexture \<times> state" where
  "updateTexture texture =
     cached texture_part texture (texture_onCreate texture) (Some (texture_stale texture))"

subsection \<open>The pipeline of a mesh\<close>

text \<open>Uniform setup: the base block ahead of the material's bindings, and the layout.\<close>

definition new_uniform :: "Uniform \<Rightarrow> state \<Rightarrow> ref \<times> state" where
  "new_uniform u s =
     (next_ref s,
      s\<lparr>next_ref := Suc (next_ref s), uniform_objects := (uniform_objects s)(next_ref s := u)\<rparr>)"

definition layout_entry :: "state \<Rightarrow> nat \<times> ref \<Rightarrow> GPUBindGroupLayoutEntry" where
  "layout_entry s iv =
     (case iv of
        (i, v) \<Rightarrow>
          (case uniform_objects s v of
             UniformBuffer d n \<Rightarrow> (i, ShaderStage_VERTEX OR ShaderStage_FRAGMENT, buffer_kind)
           | Texture d im n \<Rightarrow> (i, ShaderStage_FRAGMENT, texture_kind)
           | ExternalTexture d n \<Rightarrow> (i, ShaderStage_FRAGMENT, texture_kind)
           | Sampler d n \<Rightarrow> (i, ShaderStage_FRAGMENT, sampler_kind)))"

definition new_Float32Array :: "nat \<Rightarrow> TypedArray" where
  "new_Float32Array n = \<lparr>elems = replicate n 0, BYTES_PER_ELEMENT = 4, byteOffset = 0\<rparr>"

definition uniforms_onCreate :: "Mesh \<Rightarrow> state \<Rightarrow> (ref list \<times> handle) \<times> state" where
  "uniforms_onCreate mesh s =
     (case new_uniform (UniformBuffer (View (new_Float32Array 80)) None) s of
        (base, s1) \<Rightarrow>
          let us = base # uniform_arrays s1 (uniforms (material mesh))
          in case device_create
                    (\<lambda>h. CreateBindGroupLayout h (map (layout_entry s1) (enumerate 0 us))) s1 of
               (bindGroupLayout, s2) \<Rightarrow> ((us, bindGroupLayout), s2))"

definition uniform_setup :: "Mesh \<Rightarrow> state \<Rightarrow> (ref list \<times> handle) \<times> state" where
  "uniform_setup mesh =
     cached uniforms_part (uniforms (material mesh)) (uniforms_onCreate mesh) None"

text \<open>
  The base block. \<open>write_floats bo off n src\<close> is what a copy of \<open>n\<close> numbers from
  \<open>src\<close> into the view \<^verbatim>\<open>bo.subarray(off, off + n)\<close> leaves in \<open>bo\<close>; a view is
  read where it is used (\<open>subarray\<close>), since it shares the block's storage. The two casts
  of the source (\<^verbatim>\<open>as UniformBuffer\<close>, \<^verbatim>\<open>as Float32Array\<close>) are \<open>value'\<close> and
  \<open>the_View\<close>: the first binding is the object uniform setup created, a buffer over a
  \<^verbatim>\<open>Float32Array\<close>. (On anything else the source fails with a type error; the theorems
  about the block state that shape.)
\<close>

definition write_floats :: "real list \<Rightarrow> nat \<Rightarrow> nat \<Rightarrow> real list \<Rightarrow> real list" where
  "write_floats bo off n src = fold (\<lambda>i b. b[off + i := src ! i]) [0..<n] bo"

definition subarray :: "real list \<Rightarrow> nat \<Rightarrow> nat \<Rightarrow> real list" where
  "subarray bo lo hi = take (hi - lo) (drop lo bo)"

definition the_View :: "BufferSource \<Rightarrow> TypedArray" where
  "the_View d = (case d of View t \<Rightarrow> t | ArrayBuffer r \<Rightarrow> new_Float32Array 0)"

definition base_block :: "lib \<Rightarrow> Mesh \<Rightarrow> Camera \<Rightarrow> real list \<Rightarrow> real list" where
  "base_block l mesh camera bo0 =
     (let bo = write_floats bo0 0 16 (matrix mesh);
          bo = write_floats bo 16 16 (viewMatrix camera);
          bo = write_floats bo 32 16 (projectionMatrix camera);
          bo = write_floats bo 48 16 (subarray bo 16 32);
          bo = write_floats bo 48 16 (Mat4_mul l (subarray bo 48 64) (subarray bo 0 16));
          bo = write_floats bo 64 9 (Mat3_normalFromMat4 l (subarray bo 48 64))
      in case position camera of (x, y, z) \<Rightarrow> write_floats bo 76 3 [x, y, z])"

definition update_base_uniform :: "lib \<Rightarrow> Mesh \<Rightarrow> Camera \<Rightarrow> ref list \<Rightarrow> state \<Rightarrow> state" where
  "update_base_uniform l mesh camera us s =
     (let baseUniformBuffer = us ! 0;
          t = the_View (value' (uniform_objects s baseUniformBuffer));
          bo = base_block l mesh camera (elems t)
      in s\<lparr>uniform_objects := (uniform_objects s)
             (baseUniformBuffer := UniformBuffer (View (t\<lparr>elems := bo\<rparr>)) (Some True))\<rparr>)"

text \<open>Uniform binding: the callback of \<^verbatim>\<open>uniforms.map\<close>, and the map itself.\<close>

definition bind_uniform :: "nat \<Rightarrow> ref \<Rightarrow> state \<Rightarrow> GPUBindGroupEntry \<times> state" where
  "bind_uniform i v s =
     (case uniform_objects s v of
        UniformBuffer d n \<Rightarrow>
          (case cached uniformBuffer_part v
                  (createBuffer d BufferUsage_UNIFORM (Some (''uniform '' @ digits i @ '' buffer'')))
                  None s of
             (b, s1) \<Rightarrow>
               ((i, BufferResource b),
                if or_false (needsUpdate (uniform_objects s1 v))
                then let data = value' (uniform_objects s1 v)
                     in set_uniform_needsUpdate v False
                          (queue_writeBuffer b
                             (case data of View t \<Rightarrow> byteOffset t | ArrayBuffer r \<Rightarrow> 0) data s1)
                else s1))
      | Texture d im n \<Rightarrow>
          (case updateTexture v s of
             (texture, s1) \<Rightarrow>
               (case texture_createView texture s1 of (view, s2) \<Rightarrow> ((i, ViewResource view), s2)))
      | ExternalTexture d n \<Rightarrow>
          (case updateTexture v s of
             (texture, s1) \<Rightarrow>
               (case texture_createView texture s1 of (view, s2) \<Rightarrow> ((i, ViewResource view), s2)))
      | Sampler d n \<Rightarrow>
          (case updateSampler v s of (sampler, s1) \<Rightarrow> ((i, SamplerResource sampler), s1)))"

fun uniform_binding :: "nat \<Rightarrow> ref list \<Rightarrow> state \<Rightarrow> GPUBindGroupEntry list \<times> state" where
  "uniform_binding i [] s = ([], s)"
| "uniform_binding i (v # vs) s =
     (case bind_uniform i v s of
        (e, s1) \<Rightarrow> (case uniform_binding (Suc i) vs s1 of (es, s2) \<Rightarrow> (e # es, s2)))"

text \<open>Pipeline setup: the fingerprint, the patched shader source and the pipeline.\<close>

definition fingerprint :: "Mesh \<Rightarrow> state \<Rightarrow> pipelineOption" where
  "fingerprint mesh s =
     \<lparr>option_transparent = transparent (material mesh),
      option_cullMode = cullMode (material mesh),
      option_topology = topology (geometry mesh),
      depthWriteEnabled = depthWrite (material mesh),
      depthCompare = (if depthTest (material mesh) then ''less'' else ''always''),
      vertexBufferLayouts =
        map (\<lambda>v. layout (vertex_buffer_objects s v)) (vertexBuffers (geometry mesh)),
      option_blending = blending (material mesh),
      colorAttachments = 1,
      option_samples = samples s\<rparr>"

definition builtinAttributeNames :: "string list" where
  "builtinAttributeNames = [''POSITION'', ''NORMAL'', ''TANGENT'', ''TEXCOORD_0'']"

definition is_builtin :: "VertexBuffer \<Rightarrow> bool" where
  "is_builtin v =
     (case attribute v of
        None \<Rightarrow> False
      | Some a \<Rightarrow> attribute_name a \<noteq> [] \<and> attribute_name a \<in> set builtinAttributeNames)"

definition newline :: string where
  "newline = [CHR 0x0A]"

fun join :: "string \<Rightarrow> string list \<Rightarrow> string" where
  "join sep [] = []"
| "join sep [x] = x"
| "join sep (x # y # ys) = x @ sep @ join sep (y # ys)"

definition struct_member :: "nat \<times> VertexBuffer \<Rightarrow> string" where
  "struct_member iv =
     (case iv of
        (i, v) \<Rightarrow>
          ''  @location('' @ digits i @ '') '' @ attribute_name (the (attribute v)) @ '': ''
            @ attribute_type (the (attribute v)))"

definition vertexInputStr :: "VertexBuffer list \<Rightarrow> string" where
  "vertexInputStr vbs =
     join ('','' @ newline) (map struct_member (enumerate 0 (filter is_builtin vbs)))"

text \<open>
  The match of \<^verbatim>\<open>/^struct VertexInput {\n(.|\n)*?}/\<close>: the pattern has no flag, so it
  matches at the start of the source only; after the header the lazy group takes
  characters up to the first closing brace, and a carriage return, which neither
  alternative of the group accepts, ends the attempt. (The other line terminators the dot
  refuses are outside 8-bit characters.)
\<close>

definition struct_header :: string where
  "struct_header = ''struct VertexInput {'' @ newline"

fun lazy_body :: "string \<Rightarrow> string option" where
  "lazy_body [] = None"
| "lazy_body (c # cs) =
     (if c = CHR ''}'' then Some [c]
      else if c = CHR 0x0D then None
      else map_option ((#) c) (lazy_body cs))"

definition match_VertexInput :: "string \<Rightarrow> string option" where
  "match_VertexInput code =
     (if take (length struct_header) code = struct_header
      then map_option ((@) struct_header) (lazy_body (drop (length struct_header) code))
      else None)"

text \<open>
  \<^verbatim>\<open>str.replace(pattern, replacement)\<close> with a string pattern: the first occurrence
  is replaced, and the replacement is expanded (\<^verbatim>\<open>$$\<close>, \<^verbatim>\<open>$&\<close>, the text before and
  the text after the match; with no capture groups every other \<^verbatim>\<open>$\<close> stands for itself).
\<close>

fun GetSubstitution :: "string \<Rightarrow> string \<Rightarrow> string \<Rightarrow> string \<Rightarrow> string" where
  "GetSubstitution matched preceding following [] = []"
| "GetSubstitution matched preceding following [c] = [c]"
| "GetSubstitution matched preceding following (c # d # cs) =
     (if c = CHR ''$'' \<and> d = CHR ''$''
      then CHR ''$'' # GetSubstitution matched preceding following cs
      else if c = CHR ''$'' \<and> d = CHR ''&''
      then matched @ GetSubstitution matched preceding following cs
      else if c = CHR ''$'' \<and> d = CHR 0x60
      then preceding @ GetSubstitution matched preceding following cs
      else if c = CHR ''$'' \<and> d = CHR 0x27
      then following @ GetSubstitution matched preceding following cs
      else c # GetSubstitution matched preceding following (d # cs))"

fun find_first :: "string \<Rightarrow> string \<Rightarrow> nat option" where
  "find_first pat [] = (if pat = [] then Some 0 else None)"
| "find_first pat (c # cs) =
     (if take (length pat) (c # cs) = pat then Some 0 else map_option Suc (find_first pat cs))"

definition String_replace :: "string \<Rightarrow> string \<Rightarrow> string \<Rightarrow> string" where
  "String_replace str pat rep =
     (case find_first pat str of
        None \<Rightarrow> str
      | Some p \<Rightarrow>
          take p str
            @ GetSubstitution pat (take p str) (drop (p + length pat) str) rep
            @ drop (p + length pat) str)"

definition generated_struct :: "string \<Rightarrow> string" where
  "generated_struct vis = struct_header @ vis @ newline @ ''}''"

definition patch_shaderCode :: "string \<Rightarrow> string \<Rightarrow> string" where
  "patch_shaderCode code vis =
     (if vis \<noteq> []
      then let old = match_VertexInput code;
               rep = generated_struct vis
           in (case old of
                 Some matched \<Rightarrow>
                   if matched \<noteq> [] then String_replace code matched rep
                   else rep @ newline @ code
               | None \<Rightarrow> rep @ newline @ code)
      else code)"

definition create_pipeline ::
  "Mesh \<Rightarrow> handle \<Rightarrow> pipelineOption \<Rightarrow> string \<Rightarrow> state \<Rightarrow> GPURenderPipeline \<times> state" where
  "create_pipeline mesh bindGroupLayout opt pipelineCacheKey s =
     (let code = patch_shaderCode (shaderCode (material mesh))
                   (vertexInputStr (map (vertex_buffer_objects s) (vertexBuffers (geometry mesh))))
      in case device_create (\<lambda>h. CreateShaderModule h code) s of
           (shaderModule, s1) \<Rightarrow>
      case device_create (\<lambda>h. CreatePipelineLayout h [bindGroupLayout]) s1 of
           (pipelineLayout, s2) \<Rightarrow>
      case device_create
             (\<lambda>h. CreateRenderPipeline h
                    \<lparr>descriptor_layout = pipelineLayout,
                     descriptor_label = pipelineCacheKey,
                     descriptor_module = shaderModule,
                     descriptor_buffers = vertexBufferLayouts opt,
                     descriptor_target_format = format s2,
                     descriptor_cullMode = cullMode (material mesh),
                     descriptor_topology = topology (geometry mesh),
                     descriptor_depthWriteEnabled = depthWriteEnabled opt,
                     descriptor_depthCompare = depthCompare opt,
                     descriptor_multisample_count = option_samples opt\<rparr>) s2 of
           (p, s3) \<Rightarrow> (\<lparr>pipeline_id = p, pipeline_label = pipelineCacheKey\<rparr>, s3))"

definition pipeline_stale :: "string \<Rightarrow> GPURenderPipeline \<Rightarrow> state \<Rightarrow> bool \<times> state" where
  "pipeline_stale pipelineCacheKey old s = (pipeline_label old \<noteq> pipelineCacheKey, s)"

definition pipeline_setup :: "lib \<Rightarrow> Mesh \<Rightarrow> handle \<Rightarrow> state \<Rightarrow> GPURenderPipeline \<times> state" where
  "pipeline_setup l mesh bindGroupLayout s =
     (let pipelineOption = fingerprint mesh s;
          pipelineCacheKey = JSON_stringify l pipelineOption
      in cached pipeline_part (mesh_ref mesh)
           (create_pipeline mesh bindGroupLayout pipelineOption pipelineCacheKey)
           (Some (pipeline_stale pipelineCacheKey)) s)"

text \<open>Index and vertex buffers.\<close>

definition bind_indexBuffer :: "Mesh \<Rightarrow> state \<Rightarrow> state" where
  "bind_indexBuffer mesh s =
     (case indexBuffer (geometry mesh) of
        None \<Rightarrow> s
      | Some ib \<Rightarrow>
          (case cached indexBuffer_part (ib_ref ib)
                  (createBuffer (View (ib_buffer ib)) BufferUsage_INDEX None) None s of
             (b, s1) \<Rightarrow>
               emit (SetIndexBuffer b (''uint'' @ digits (BYTES_PER_ELEMENT (ib_buffer ib) * 8))) s1))"

definition set_vb_needsUpdate :: "ref \<Rightarrow> bool \<Rightarrow> state \<Rightarrow> state" where
  "set_vb_needsUpdate r b s =
     s\<lparr>vertex_buffer_objects := (vertex_buffer_objects s)
         (r := (vertex_buffer_objects s r)\<lparr>vb_needsUpdate := Some b\<rparr>)\<rparr>"

definition vertexBuffer_onCreate :: "ref \<Rightarrow> state \<Rightarrow> handle \<times> state" where
  "vertexBuffer_onCreate vb s =
     (let s1 = set_vb_needsUpdate vb False s
      in createBuffer (View (buffer (vertex_buffer_objects s1 vb))) BufferUsage_VERTEX None s1)"

definition bind_vertexBuffer :: "nat \<Rightarrow> ref \<Rightarrow> state \<Rightarrow> state" where
  "bind_vertexBuffer i vb s =
     (case cached vertexBuffer_part vb (vertexBuffer_onCreate vb) None s of
        (b, s1) \<Rightarrow>
          let s2 = (if or_false (vb_needsUpdate (vertex_buffer_objects s1 vb))
                    then let data = buffer (vertex_buffer_objects s1 vb)
                         in set_vb_needsUpdate vb False
                              (queue_writeBuffer b (byteOffset data) (View data) s1)
                    else s1)
          in emit (SetVertexBuffer i b) s2)"

fun bind_vertexBuffers :: "nat \<Rightarrow> ref list \<Rightarrow> state \<Rightarrow> state" where
  "bind_vertexBuffers i [] s = s"
| "bind_vertexBuffers i (vb # vbs) s = bind_vertexBuffers (Suc i) vbs (bind_vertexBuffer i vb s)"

definition bind_group :: "handle \<Rightarrow> GPUBindGroupEntry list \<Rightarrow> state \<Rightarrow> state" where
  "bind_group bindGroupLayout bindGroupEntries s =
     (if bindGroupEntries \<noteq> []
      then case device_create (\<lambda>h. CreateBindGroup h bindGroupLayout bindGroupEntries) s of
             (bindGroup, s1) \<Rightarrow> emit (SetBindGroup 0 bindGroup) s1
      else s)"

definition updatePipeline :: "lib \<Rightarrow> Mesh \<Rightarrow> Camera \<Rightarrow> state \<Rightarrow> state" where
  "updatePipeline l mesh camera s =
     (case uniform_setup mesh s of
        ((us, bindGroupLayout), s1) \<Rightarrow>
          (case uniform_binding 0 us (update_base_uniform l mesh camera us s1) of
             (bindGroupEntries, s2) \<Rightarrow>
               (case pipeline_setup l mesh bindGroupLayout s2 of
                  (pipeline, s3) \<Rightarrow>
                    bind_group bindGroupLayout bindGroupEntries
                      (bind_vertexBuffers 0 (vertexBuffers (geometry mesh))
                         (bind_indexBuffer mesh (emit (SetPipeline (pipeline_id pipeline)) s3))))))"

subsection \<open>The frame\<close>

text \<open>
  The draw call of a node, issued after its pipeline is set up: indexed when the geometry
  has an index buffer, else over the first vertex buffer, else three vertices.
\<close>

definition draw_call :: "Mesh \<Rightarrow> state \<Rightarrow> GPUCommand" where
  "draw_call node s =
     (let g = geometry node;
          start = (case drawRange_start g of Some n \<Rightarrow> n | None \<Rightarrow> 0)
      in case indexBuffer g of
           Some ib \<Rightarrow>
             (let count = Math_min (drawRange_count g) (Num (real (length (elems (ib_buffer ib)))))
              in DrawIndexed count (instanceCount g) start)
         | None \<Rightarrow>
             (case vertexBuffers g of
                p # ps \<Rightarrow>
                  (let position = vertex_buffer_objects s p;
                       count = Math_min (drawRange_count g)
                                 (divide_lengths (length (elems (buffer position)))
                                    (arrayStride (layout position)))
                   in Draw count (instanceCount g) start)
              | [] \<Rightarrow> Draw (Num 3) (instanceCount g) 0))"

definition draw_node :: "Mesh \<Rightarrow> state \<Rightarrow> state" where
  "draw_node node s = emit (draw_call node s) s"

fun render_nodes :: "lib \<Rightarrow> Mesh list \<Rightarrow> Camera \<Rightarrow> state \<Rightarrow> state" where
  "render_nodes l [] camera s = s"
| "render_nodes l (node # nodes) camera s =
     render_nodes l nodes camera (draw_node node (updatePipeline l node camera s))"

definition begin_frame :: "state \<Rightarrow> handle \<times> state" where
  "begin_frame s0 =
     (let s = (if map_option texture_sampleCount (msaaTexture s0) \<noteq> Some (samples s0)
               then resizeSwapchain s0 else s0)
      in case device_create GetCurrentTexture s of
           (current, s1) \<Rightarrow>
      case texture_createView \<lparr>texture_id = current, texture_sampleCount = 1\<rparr> s1 of
           (resolveTarget, s2) \<Rightarrow>
      case device_create CreateCommandEncoder s2 of
           (encoder, s3) \<Rightarrow>
             (encoder,
              emit (SetViewport (canvas_width s3) (canvas_height s3))
                (emit (BeginRenderPass encoder (msaaTextureView s3) resolveTarget
                         (depthTextureView s3) (autoClear s3)) s3)))"

definition render :: "lib \<Rightarrow> Object3D \<Rightarrow> Camera \<Rightarrow> state \<Rightarrow> state" where
  "render l scene0 camera0 s0 =
     (case begin_frame s0 of
        (encoder, s) \<Rightarrow>
          let scene = Object3D_updateMatrix l scene0;
              camera = Camera_updateMatrix l camera0
          in case sort_scene l scene (Some camera) of
               (renderList, sorted_camera) \<Rightarrow>
                 let camera = (case sorted_camera of Some c \<Rightarrow> c | None \<Rightarrow> camera);
                     s = emit EndPass (render_nodes l renderList camera s)
                 in case device_create (Finish encoder) s of
                      (commandBuffer, s1) \<Rightarrow> emit (Submit [commandBuffer]) s1)"

subsection \<open>The camera component's view matrix\<close>

text \<open>
  The first effect of \<^verbatim>\<open>Camera\<close> (\<^verbatim>\<open>camera.tsx\<close>): the view matrix becomes
  \<^verbatim>\<open>m.copy(mat).invert()\<close> for the node's world matrix \<open>mat\<close>; the second one sets the
  projection-view matrix to \<^verbatim>\<open>m.copy(p).multiply(v)\<close>. The inversion and the product
  are the math library's, parameters here.
\<close>

definition Mat4_copy :: "Mat4 \<Rightarrow> Mat4" where
  "Mat4_copy a = map ((!) a) [0..<16]"


definition Camera_projectionView_effect :: "(Mat4 \<Rightarrow> Mat4 \<Rightarrow> Mat4) \<Rightarrow> Camera \<Rightarrow> Camera" where
  "Camera_projectionView_effect multiply store =
     store\<lparr>projectionViewMatrix := multiply (Mat4_copy (projectionMatrix store)) (viewMatrix store)\<rparr>"

subsection \<open>PBRMaterial\<close>

text \<open>
  A view over an \<^verbatim>\<open>ArrayBuffer\<close>: the buffer, the byte offset and the number of 4-byte
  elements. A store outside the view is ignored, as a typed array ignores it.
\<close>

record ArrayView =
  view_buffer :: ref
  view_byteOffset :: nat
  view_length :: nat

definition view_get :: "ArrayView \<Rightarrow> nat \<Rightarrow> state \<Rightarrow> real" where
  "view_get v i s = array_buffers s (view_buffer v) ! (view_byteOffset v div 4 + i)"

definition view_put :: "ArrayView \<Rightarrow> nat \<Rightarrow> real \<Rightarrow> state \<Rightarrow> state" where
  "view_put v i x s =
     (if i < view_length v
      then s\<lparr>array_buffers := (array_buffers s)
               (view_buffer v := (array_buffers s (view_buffer v))[view_byteOffset v div 4 + i := x])\<rparr>
      else s)"

record PBRMaterial = Material +
  pbrBuffer :: ref
  albedo_view :: ArrayView
  pbrParamsValue :: ArrayView
  pbrFlag :: ArrayView

text \<open>
  What the module takes from files that are not among the sources: the default texture,
  \<^verbatim>\<open>setBitOfValue\<close> (\<^verbatim>\<open>./utils\<close>), the shader source, and the fields the
  \<^verbatim>\<open>Material\<close> constructor gives a material beyond the shader source and the
  uniform list it is handed (it keeps those two).
\<close>

record pbr_env =
  defaultTexture :: ref
  setBitOfValue :: "real \<Rightarrow> nat \<Rightarrow> bool \<Rightarrow> real"
  material_defaults :: Material
  pbr_shaderCode :: string

record PBROptions =
  options_albedo :: "Vec3 option"
  options_metallic :: "real option"
  options_roughness :: "real option"
  options_occlusion :: "real option"
  options_albedoTexture :: "ref option"
  options_occlusionRoughnessMetallicTexture :: "ref option"

definition or_else :: "'a option \<Rightarrow> 'a \<Rightarrow> 'a" where
  "or_else x d = (case x of Some v \<Rightarrow> v | None \<Rightarrow> d)"

definition new_ref :: "state \<Rightarrow> ref \<times> state" where
  "new_ref s = (next_ref s, s\<lparr>next_ref := Suc (next_ref s)\<rparr>)"

definition put_Vec3 :: "ArrayView \<Rightarrow> Vec3 \<Rightarrow> state \<Rightarrow> state" where
  "put_Vec3 v a s = (case a of (x, y, z) \<Rightarrow> view_put v 2 z (view_put v 1 y (view_put v 0 x s)))"

definition new_PBRMaterial :: "pbr_env \<Rightarrow> PBROptions \<Rightarrow> state \<Rightarrow> PBRMaterial \<times> state" where
  "new_PBRMaterial env options s0 =
     (case new_ref s0 of
        (b, s1) \<Rightarrow>
     let s2 = s1\<lparr>array_buffers := (array_buffers s1)(b := replicate 8 0)\<rparr>;
         albedo = \<lparr>view_buffer = b, view_byteOffset = 0, view_length = 3\<rparr>;
         s3 = put_Vec3 albedo (or_else (options_albedo options) (0, 0.5, 1)) s2;
         params = \<lparr>view_buffer = b, view_byteOffset = 12, view_length = 3\<rparr>;
         s4 = view_put params 0 (or_else (options_metallic options) 0.5) s3;
         s5 = view_put params 1 (or_else (options_roughness options) 0.5) s4;
         s6 = view_put params 2 (or_else (options_occlusion options) 1.0) s5;
         flag = \<lparr>view_buffer = b, view_byteOffset = 24, view_length = 1\<rparr>;
         s7 = view_put flag 0
                (setBitOfValue env (view_get flag 0 s6) 0 (options_albedoTexture options \<noteq> None)) s6;
         s8 = view_put flag 0
                (setBitOfValue env (view_get flag 0 s7) 1
                   (options_occlusionRoughnessMetallicTexture options \<noteq> None)) s7;
         lightValues = \<lparr>elems = [2, 2, 2, 0, 10, 10, 10, 0], BYTES_PER_ELEMENT = 4, byteOffset = 0\<rparr>
     in case new_uniform (UniformBuffer (ArrayBuffer b) None) s8 of
          (u0, s9) \<Rightarrow>
        case new_uniform (UniformBuffer (View lightValues) None) s9 of
          (u1, s10) \<Rightarrow>
        case new_uniform
               (Sampler [(''magFilter'', ''linear''), (''minFilter'', ''linear''),
                         (''mipmapFilter'', ''linear''), (''addressModeU'', ''repeat''),
                         (''addressModeV'', ''repeat'')] None) s10 of
          (u4, s11) \<Rightarrow>
        case new_ref s11 of
          (a, s12) \<Rightarrow>
            (Material.extend
               ((material_defaults env)\<lparr>shaderCode := pbr_shaderCode env, uniforms := a\<rparr>)
               (PBRMaterial.fields b albedo params flag),
             s12\<lparr>uniform_arrays := (uniform_arrays s12)
                   (a := [u0, u1,
                          or_else (options_albedoTexture options) (defaultTexture env),
                          or_else (options_occlusionRoughnessMetallicTexture options)
                            (defaultTexture env),
                          u4])\<rparr>))"

text \<open>\<^verbatim>\<open>this.uniforms[0].needsUpdate = true\<close>.\<close>

definition dirty_first :: "PBRMaterial \<Rightarrow> state \<Rightarrow> state" where
  "dirty_first m s = set_uniform_needsUpdate (uniform_arrays s (uniforms m) ! 0) True s"

definition set_uniform_at :: "PBRMaterial \<Rightarrow> nat \<Rightarrow> ref \<Rightarrow> state \<Rightarrow> state" where
  "set_uniform_at m i v s =
     s\<lparr>uniform_arrays := (uniform_arrays s)(uniforms m := (uniform_arrays s (uniforms m))[i := v])\<rparr>"

definition set_albedo :: "PBRMaterial \<Rightarrow> Vec3 \<Rightarrow> state \<Rightarrow> state" where
  "set_albedo m v s = dirty_first m (put_Vec3 (albedo_view m) v s)"

definition set_metallic :: "PBRMaterial \<Rightarrow> real \<Rightarrow> state \<Rightarrow> state" where
  "set_metallic m v s = dirty_first m (view_put (pbrParamsValue m) 0 v s)"

definition set_roughness :: "PBRMaterial \<Rightarrow> real \<Rightarrow> state \<Rightarrow> state" where
  "set_roughness m v s = dirty_first m (view_put (pbrParamsValue m) 1 v s)"

definition set_occlusion :: "PBRMaterial \<Rightarrow> real \<Rightarrow> state \<Rightarrow> state" where
  "set_occlusion m v s = dirty_first m (view_put (pbrParamsValue m) 2 v s)"

definition set_albedoTexture :: "pbr_env \<Rightarrow> PBRMaterial \<Rightarrow> ref option \<Rightarrow> state \<Rightarrow> state" where
  "set_albedoTexture env m v s =
     (let s1 = set_uniform_at m 2 (or_else v (defaultTexture env)) s;
          s2 = view_put (pbrFlag m) 0 (setBitOfValue env (view_get (pbrFlag m) 0 s1) 0 (v \<noteq> None)) s1
      in dirty_first m s2)"

definition set_occlusionRoughnessMetallicTexture ::
  "pbr_env \<Rightarrow> PBRMaterial \<Rightarrow> ref option \<Rightarrow> state \<Rightarrow> state" where
  "set_occlusionRoughnessMetallicTexture env m v s =
     (let s1 = set_uniform_at m 3 (or_else v (defaultTexture env)) s;
          s2 = view_put (pbrFlag m) 0 (setBitOfValue env (view_get (pbrFlag m) 0 s1) 1 (v \<noteq> None)) s1
      in dirty_first m s2)"

text \<open>The six property setters, as one operation.\<close>

datatype pbr_setter =
    Albedo Vec3
  | Metallic real
  | Roughness real
  | Occlusion real
  | AlbedoTexture "ref option"
  | OcclusionRoughnessMetallicTexture "ref option"

fun assign :: "pbr_env \<Rightarrow> PBRMaterial \<Rightarrow> pbr_setter \<Rightarrow> state \<Rightarrow> state" where
  "assign env m (Albedo v) s = set_albedo m v s"
| "assign env m (Metallic v) s = set_metallic m v s"
| "assign env m (Roughness v) s = set_roughness m v s"
| "assign env m (Occlusion v) s = set_occlusion m v s"
| "assign env m (AlbedoTexture v) s = set_albedoTexture env m v s"
| "assign env m (OcclusionRoughnessMetallicTexture v) s =
     set_occlusionRoughnessMetallicTexture env m v s"

subsection \<open>The order the comparator amounts to\<close>

text \<open>
  \<open>draw_order l camera a b\<close>: \<open>a\<close> may be submitted before \<open>b\<close>. A node whose depth test
  is disabled never goes before one whose depth test is enabled; in one tier and with a
  camera, a node never goes before one of greater projected \<open>z\<close>; in one tier and at one
  depth (or with no camera), a transparent node never goes before an opaque one.
\<close>

definition draw_order :: "lib \<Rightarrow> Camera option \<Rightarrow> Mesh \<Rightarrow> Mesh \<Rightarrow> bool" where
  "draw_order l camera a b \<longleftrightarrow>
     (depthTest (material b) \<longrightarrow> depthTest (material a)) \<and>
     (depthTest (material a) = depthTest (material b) \<longrightarrow>
        (case camera of None \<Rightarrow> True | Some c \<Rightarrow> projected_z l c b \<le> projected_z l c a) \<and>
        ((case camera of None \<Rightarrow> True | Some c \<Rightarrow> projected_z l c b = projected_z l c a) \<longrightarrow>
           (transparent (material a) \<longrightarrow> transparent (material b))))"

subsection \<open>Reading the log\<close>

fun is_draw :: "GPUCommand \<Rightarrow> bool" where
  "is_draw (Draw c i f) = True"
| "is_draw (DrawIndexed c i f) = True"
| "is_draw c = False"

definition draws :: "state \<Rightarrow> GPUCommand list" where
  "draws s = filter is_draw (commands s)"

fun writes_to :: "handle \<Rightarrow> GPUCommand \<Rightarrow> bool" where
  "writes_to b (WriteBuffer b' off n xs) = (b' = b)"
| "writes_to b c = False"

fun is_SetPipeline :: "GPUCommand \<Rightarrow> bool" where
  "is_SetPipeline (SetPipeline p) = True"
| "is_SetPipeline c = False"

fun is_CreateRenderPipeline :: "GPUCommand \<Rightarrow> bool" where
  "is_CreateRenderPipeline (CreateRenderPipeline p d) = True"
| "is_CreateRenderPipeline c = False"

text \<open>
  \<open>steady s s'\<close>: from \<open>s\<close> to \<open>s'\<close> no draw call was issued and no vertex buffer's data or
  layout changed.
\<close>

definition steady :: "state \<Rightarrow> state \<Rightarrow> bool" where
  "steady s s' \<longleftrightarrow>
     draws s' = draws s \<and>
     (\<forall>r. buffer (vertex_buffer_objects s' r) = buffer (vertex_buffer_objects s r) \<and>
          layout (vertex_buffer_objects s' r) = layout (vertex_buffer_objects s r))"

text \<open>What the destruction of the previous render target adds to the log.\<close>

definition destroy_old :: "GPUTexture option \<Rightarrow> GPUCommand list" where
  "destroy_old t = (case t of Some old \<Rightarrow> [DestroyTexture (texture_id old)] | None \<Rightarrow> [])"

fun is_buffer :: "Uniform \<Rightarrow> bool" where
  "is_buffer (UniformBuffer d n) = True"
| "is_buffer u = False"

text \<open>
  The shape a \<^verbatim>\<open>PBRMaterial\<close> has from its constructor on: its uniform list starts
  with a buffer binding over the material's own 32-byte buffer, and the three views lie in
  that buffer at bytes 0, 12 and 24.
\<close>

definition pbr_ok :: "PBRMaterial \<Rightarrow> state \<Rightarrow> bool" where
  "pbr_ok m s \<longleftrightarrow>
     uniform_arrays s (uniforms m) \<noteq> [] \<and>
     value' (uniform_objects s (uniform_arrays s (uniforms m) ! 0)) = ArrayBuffer (pbrBuffer m) \<and>
     is_buffer (uniform_objects s (uniform_arrays s (uniforms m) ! 0)) \<and>
     length (array_buffers s (pbrBuffer m)) = 8 \<and>
     albedo_view m = \<lparr>view_buffer = pbrBuffer m, view_byteOffset = 0, view_length = 3\<rparr> \<and>
     pbrParamsValue m = \<lparr>view_buffer = pbrBuffer m, view_byteOffset = 12, view_length = 3\<rparr> \<and>
     pbrFlag m = \<lparr>view_buffer = pbrBuffer m, view_byteOffset = 24, view_length = 1\<rparr>"

subsection \<open>A concrete library and concrete scenes\<close>

text \<open>
  Modelled from the spec: the math library is not among the sources; the spec assumes
  its standard semantics. This instance, used where a theorem runs the renderer on a
  concrete input, has the column-major matrix product, the projective transform of a
  point (a zero \<open>w\<close> is replaced by 1) and the inverse transpose of the upper 3 by 3 block
  (zeros for a singular block); its \<^verbatim>\<open>updateMatrix\<close> leaves world matrices as they are
  and its serialisation writes the fields of a fingerprint in order.
\<close>

definition mat4_multiply :: "Mat4 \<Rightarrow> Mat4 \<Rightarrow> Mat4" where
  "mat4_multiply a b =
     map (\<lambda>i. (\<Sum>k\<leftarrow>[0..<4]. a ! (k * 4 + i mod 4) * b ! ((i div 4) * 4 + k))) [0..<16]"

definition vec3_transformMat4 :: "Vec3 \<Rightarrow> Mat4 \<Rightarrow> Vec3" where
  "vec3_transformMat4 v m =
     (case v of
        (x, y, z) \<Rightarrow>
          (let w0 = m ! 3 * x + m ! 7 * y + m ! 11 * z + m ! 15;
               w = (if w0 = 0 then 1 else w0)
           in ((m ! 0 * x + m ! 4 * y + m ! 8 * z + m ! 12) / w,
               (m ! 1 * x + m ! 5 * y + m ! 9 * z + m ! 13) / w,
               (m ! 2 * x + m ! 6 * y + m ! 10 * z + m ! 14) / w)))"

definition mat3_normalFromMat4 :: "Mat4 \<Rightarrow> real list" where
  "mat3_normalFromMat4 m =
     (let c00 = m ! 5 * m ! 10 - m ! 6 * m ! 9;
          c01 = m ! 6 * m ! 8 - m ! 4 * m ! 10;
          c02 = m ! 4 * m ! 9 - m ! 5 * m ! 8;
          c10 = m ! 2 * m ! 9 - m ! 1 * m ! 10;
          c11 = m ! 0 * m ! 10 - m ! 2 * m ! 8;
          c12 = m ! 1 * m ! 8 - m ! 0 * m ! 9;
          c20 = m ! 1 * m ! 6 - m ! 2 * m ! 5;
          c21 = m ! 2 * m ! 4 - m ! 0 * m ! 6;
          c22 = m ! 0 * m ! 5 - m ! 1 * m ! 4;
          det = m ! 0 * c00 + m ! 1 * c01 + m ! 2 * c02
      in if det = 0 then replicate 9 0
         else map (\<lambda>c. c / det) [c00, c01, c02, c10, c11, c12, c20, c21, c22])"

definition show_bool :: "bool \<Rightarrow> string" where
  "show_bool b = (if b then ''true'' else ''false'')"

definition show_option :: "string option \<Rightarrow> string" where
  "show_option x = (case x of None \<Rightarrow> ''null'' | Some s \<Rightarrow> s)"

definition show_layout :: "GPUVertexBufferLayout \<Rightarrow> string" where
  "show_layout v =
     digits (arrayStride v) @ '':'' @
     join '','' (map (\<lambda>(f, off, loc). f @ ''@'' @ digits off @ ''@'' @ digits loc) (attributes v))"

definition serialise :: "pipelineOption \<Rightarrow> string" where
  "serialise opt =
     join '';''
       [show_bool (option_transparent opt), show_option (option_cullMode opt),
        show_option (option_topology opt), show_bool (depthWriteEnabled opt), depthCompare opt,
        join ''|'' (map show_layout (vertexBufferLayouts opt)),
        show_option (option_blending opt), digits (colorAttachments opt),
        digits (option_samples opt)]"

definition standard_lib :: lib where
  "standard_lib =
     \<lparr>Mat4_mul = mat4_multiply,
      Mat3_normalFromMat4 = mat3_normalFromMat4,
      Vec3_transformMat4 = vec3_transformMat4,
      Object3D_updateMatrix = (\<lambda>scene. scene),
      Camera_updateMatrix = (\<lambda>camera. camera),
      JSON_stringify = serialise\<rparr>"

text \<open>
  A state with no renderer and no objects yet: every reference reads as an object without
  content. The examples build their states from it.
\<close>

definition blank :: state where
  "blank =
     \<lparr>canvas_width = 300, canvas_height = 150, format = ''bgra8unorm'', autoClear = True,
      samples = 4, msaaTexture = None, msaaTextureView = None, depthTexture = None,
      depthTextureView = None, uniformsCache = Map.empty, uniformBufferCache = Map.empty,
      textureCache = Map.empty, samplerCache = Map.empty, pipelineCache = Map.empty,
      indexBufferCache = Map.empty, vertexBufferCache = Map.empty, next_handle = 0,
      commands = [], uniform_objects = (\<lambda>r. Sampler [] None), uniform_arrays = (\<lambda>r. []),
      vertex_buffer_objects =
        (\<lambda>r. \<lparr>buffer = new_Float32Array 0, layout = \<lparr>arrayStride = 0, attributes = []\<rparr>,
               attribute = None, vb_needsUpdate = None\<rparr>),
      array_buffers = (\<lambda>r. []), next_ref = 1000\<rparr>"

definition identity4 :: Mat4 where
  "identity4 = [1, 0, 0, 0, 0, 1, 0, 0, 0, 0, 1, 0, 0, 0, 0, 1]"

definition translation4 :: "real \<Rightarrow> real \<Rightarrow> real \<Rightarrow> Mat4" where
  "translation4 x y z = [1, 0, 0, 0, 0, 1, 0, 0, 0, 0, 1, 0, x, y, z, 1]"

definition sample_camera :: Camera where
  "sample_camera =
     \<lparr>camera_matrix = identity4, projectionMatrix = identity4, viewMatrix = identity4,
      projectionViewMatrix = identity4, position = (0, 0, 0), matrixAutoUpdate = False\<rparr>"

text \<open>
  A mesh of the examples: a triangle with no vertex buffer and no index buffer, at depth
  \<open>z\<close>, with the two flags the draw order reads.
\<close>

definition sample_material :: "ref \<Rightarrow> bool \<Rightarrow> bool \<Rightarrow> Material" where
  "sample_material us dt tr =
     \<lparr>shaderCode = ''fn vs_main() {}'', uniforms = us, transparent = tr, cullMode = Some ''back'',
      depthWrite = True, depthTest = dt, blending = None\<rparr>"

definition sample_geometry :: "ref list \<Rightarrow> IndexBuffer option \<Rightarrow> number \<Rightarrow> Geometry" where
  "sample_geometry vbs ib n =
     \<lparr>topology = Some ''triangle-list'', vertexBuffers = vbs, indexBuffer = ib,
      drawRange_start = Some 0, drawRange_count = n, instanceCount = 1\<rparr>"

definition sample_mesh :: "ref \<Rightarrow> real \<Rightarrow> bool \<Rightarrow> bool \<Rightarrow> Mesh" where
  "sample_mesh r z dt tr =
     \<lparr>mesh_ref = r, matrix = translation4 0 0 z, geometry = sample_geometry [] None (Num 3),
      material = sample_material (100 + r) dt tr\<rparr>"

definition leaf :: "Mesh \<Rightarrow> Object3D" where
  "leaf m = Object3D True (Some m) []"

text \<open>
  The scene of the specification's example: an overlay with the depth test disabled,
  then a transparent mesh with the depth test enabled.
\<close>

definition overlay_scene :: Object3D where
  "overlay_scene =
     Object3D True None [leaf (sample_mesh 1 0 False False), leaf (sample_mesh 2 5 True True)]"

text \<open>
  Six meshes under a group, one of them in an invisible subtree: two tiers, two depths,
  both transparencies, and two nodes with one sort key.
\<close>

definition sorting_scene :: Object3D where
  "sorting_scene =
     Object3D True None
       [leaf (sample_mesh 1 1 True False),
        Object3D False None [leaf (sample_mesh 5 9 True False)],
        leaf (sample_mesh 2 5 False False),
        leaf (sample_mesh 3 3 True True),
        Object3D True (Some (sample_mesh 4 3 True False)) [leaf (sample_mesh 6 1 True False)]]"

text \<open>A vertex buffer of floats with one attribute, and an index buffer of 16-bit indices.\<close>

definition sample_vb :: "string \<Rightarrow> string \<Rightarrow> real list \<Rightarrow> nat \<Rightarrow> VertexBuffer" where
  "sample_vb name ty xs stride =
     \<lparr>buffer = \<lparr>elems = xs, BYTES_PER_ELEMENT = 4, byteOffset = 0\<rparr>,
      layout = \<lparr>arrayStride = stride, attributes = [(''float32x3'', 0, 0)]\<rparr>,
      attribute = Some \<lparr>attribute_name = name, attribute_type = ty\<rparr>,
      vb_needsUpdate = None\<rparr>"

definition sample_ib :: "ref \<Rightarrow> real list \<Rightarrow> IndexBuffer" where
  "sample_ib r xs = \<lparr>ib_ref = r, ib_buffer = \<lparr>elems = xs, BYTES_PER_ELEMENT = 2, byteOffset = 0\<rparr>\<rparr>"

text \<open>
  A triangle: vertex buffer 10 holds nine floats, three per vertex, with a stride of 12
  bytes. \<open>triangle_mesh\<close> draws it without indices and declares a draw range of three
  vertices; \<open>indexed_mesh\<close> draws it through three indices and declares no bound.
\<close>

definition triangle_world :: state where
  "triangle_world =
     blank\<lparr>vertex_buffer_objects := (vertex_buffer_objects blank)
             (10 := sample_vb ''POSITION'' ''vec3f'' [0, 0, 0, 1, 0, 0, 0, 1, 0] 12)\<rparr>"

definition triangle_mesh :: Mesh where
  "triangle_mesh =
     \<lparr>mesh_ref = 1, matrix = identity4, geometry = sample_geometry [10] None (Num 3),
      material = sample_material 101 True False\<rparr>"

definition indexed_mesh :: Mesh where
  "indexed_mesh =
     \<lparr>mesh_ref = 2, matrix = identity4,
      geometry = sample_geometry [10] (Some (sample_ib 11 [0, 1, 2])) Infinity,
      material = sample_material 102 True False\<rparr>"

text \<open>
  A mesh whose material has one buffer binding, written and marked dirty before the
  first frame.
\<close>

definition dirty_world :: state where
  "dirty_world =
     blank\<lparr>uniform_arrays := (uniform_arrays blank)(101 := [30]),
           uniform_objects := (uniform_objects blank)
             (30 := UniformBuffer (View \<lparr>elems = [1, 2, 3, 4], BYTES_PER_ELEMENT = 4, byteOffset = 0\<rparr>)
                      (Some True))\<rparr>"

definition dirty_scene :: Object3D where
  "dirty_scene = leaf (sample_mesh 1 0 True False)"

text \<open>Two meshes with one configuration: every field of their fingerprints agrees.\<close>

definition twin_scene :: Object3D where
  "twin_scene = Object3D True None [leaf (sample_mesh 1 0 True False), leaf (sample_mesh 2 0 True False)]"



text \<open>
  An environment for \<^verbatim>\<open>PBRMaterial\<close>: reference 50 is the default texture, and a bit of
  a number is set or cleared in its integer part.
\<close>

definition sample_pbr_env :: pbr_env where
  "sample_pbr_env =
     \<lparr>defaultTexture = 50,
      setBitOfValue = (\<lambda>x n b. real (if b then set_bit n (nat \<lfloor>x\<rfloor>) else unset_bit n (nat \<lfloor>x\<rfloor>))),
      material_defaults = sample_material 0 True False,
      pbr_shaderCode = ''fn fs_main() {}''\<rparr>"

definition no_options :: PBROptions where
  "no_options =
     \<lparr>options_albedo = None, options_metallic = None, options_roughness = None,
      options_occlusion = None, options_albedoTexture = None,
      options_occlusionRoughnessMetallicTexture = None\<rparr>"

section \<open>Theorems\<close>

lemma sort_compare_key:
  "sort_compare l camera a b \<le> 0 \<longleftrightarrow> sort_key_of l camera a \<le> sort_key_of l camera b"
  by (cases camera)
     (auto simp: sort_compare_def sort_key_of_def Let_def less_eq_prod_def less_prod_def)

lemma insert_by_key:
  "insert_by (sort_compare l camera) x xs = insort_key (sort_key_of l camera) x xs"
  by (induction xs) (simp_all add: sort_compare_key)

lemma Array_sort_key:
  "Array_sort (sort_compare l camera) xs = sort_key (sort_key_of l camera) xs"
proof -
  have "insert_by (sort_compare l camera) = insort_key (sort_key_of l camera)"
    by (intro ext) (rule insert_by_key)
  then show ?thesis
    by (simp add: Array_sort_def sort_key_def)
qed

lemma draw_order_key:
  "draw_order l camera a b \<longleftrightarrow> sort_key_of l camera a \<le> sort_key_of l camera b"
  by (cases camera)
     (auto simp: draw_order_def sort_key_of_def less_eq_prod_def less_prod_def)

lemma sorted_wrt_draw_order:
  "sorted_wrt (draw_order l camera) (sort_key (sort_key_of l camera) xs)"
proof -
  have "sorted (map (sort_key_of l camera) (sort_key (sort_key_of l camera) xs))"
    by (rule sorted_sort_key)
  then have "sorted_wrt (\<lambda>a b. sort_key_of l camera a \<le> sort_key_of l camera b)
               (sort_key (sort_key_of l camera) xs)"
    by (simp add: sorted_map)
  moreover have "(\<lambda>a b. sort_key_of l camera a \<le> sort_key_of l camera b) = draw_order l camera"
    by (intro ext) (simp add: draw_order_key)
  ultimately show ?thesis by simp
qed

lemma sort_scene_eq:
  "sort_scene l scene camera =
     (sort_key (sort_key_of l (map_option (update_projectionView l) camera))
        (traverse sort_callback scene),
      map_option (update_projectionView l) camera)"
  by (simp add: sort_scene_def Let_def Array_sort_key)

lemma sample_camera_fixed:
  "update_projectionView l sample_camera = sample_camera"
  by (simp add: update_projectionView_def sample_camera_def)

lemma projected_z_standard:
  "projected_z standard_lib sample_camera (sample_mesh r z dt tr) = z"
  by (simp add: projected_z_def standard_lib_def sample_camera_def sample_mesh_def
      translation4_def identity4_def vec3_transformMat4_def)

lemma sample_mesh_flags:
  "depthTest (material (sample_mesh r z dt tr)) = dt"
  "transparent (material (sample_mesh r z dt tr)) = tr"
  by (simp_all add: sample_mesh_def sample_material_def)

lemma sort_compare_sample:
  "sort_compare standard_lib (Some sample_camera) (sample_mesh r z dt tr) (sample_mesh r' z' dt' tr')
     = (if of_bool dt' - of_bool dt \<noteq> (0::real) then of_bool dt' - of_bool dt
        else if z' - z \<noteq> 0 then z' - z else of_bool tr - of_bool tr')"
  by (simp add: sort_compare_def Let_def projected_z_standard sample_mesh_flags)

lemma sorting_scene_result:
  "fst (sort_scene standard_lib sorting_scene (Some sample_camera)) =
     [sample_mesh 4 3 True False, sample_mesh 3 3 True True, sample_mesh 1 1 True False,
      sample_mesh 6 1 True False, sample_mesh 2 5 False False]"
  by (simp add: sort_scene_def sorting_scene_def leaf_def sort_callback_def Array_sort_def
      sample_camera_fixed sort_compare_sample)

text \<open>
  C1, as the code has it. \<^verbatim>\<open>sort\<close> returns the visible meshes of the traversal, each
  once, in a stable order: nodes with the depth test enabled precede nodes with the depth
  test disabled (the overlays are submitted last); in one tier and with a camera, nodes of
  greater projected \<open>z\<close> precede nodes of smaller; nodes still tied are ordered opaque before
  transparent; nodes with one sort key keep their traversal order.
\<close>

theorem sort_scene_order:
  "mset (fst (sort_scene l scene camera)) = mset (traverse sort_callback scene) \<and>
   sorted_wrt (draw_order l (snd (sort_scene l scene camera))) (fst (sort_scene l scene camera)) \<and>
   (\<forall>k. filter (\<lambda>m. sort_key_of l (snd (sort_scene l scene camera)) m = k)
           (fst (sort_scene l scene camera)) =
         filter (\<lambda>m. sort_key_of l (snd (sort_scene l scene camera)) m = k)
           (traverse sort_callback scene))"
  by (simp add: sort_scene_eq sorted_wrt_draw_order sort_key_stable)

text \<open>
  The theorem at a scene of six meshes, one of them invisible: the five that are drawn,
  in the order the renderer submits them.
\<close>

theorem sort_scene_order_witness:
  "fst (sort_scene standard_lib sorting_scene (Some sample_camera)) =
     [sample_mesh 4 3 True False, sample_mesh 3 3 True True, sample_mesh 1 1 True False,
      sample_mesh 6 1 True False, sample_mesh 2 5 False False] \<and>
   sorted_wrt (draw_order standard_lib (Some sample_camera))
     [sample_mesh 4 3 True False, sample_mesh 3 3 True True, sample_mesh 1 1 True False,
      sample_mesh 6 1 True False, sample_mesh 2 5 False False]"
proof -
  have cam: "snd (sort_scene standard_lib sorting_scene (Some sample_camera)) = Some sample_camera"
    by (simp add: sort_scene_def Let_def sample_camera_fixed)
  from sort_scene_order [of standard_lib sorting_scene "Some sample_camera"]
  show ?thesis
    by (simp only: cam sorting_scene_result simp_thms)
qed

text \<open>
  C1 as stated fails: in the specification's own example (an overlay with the depth test
  disabled, then a transparent mesh with the depth test enabled, drawn with a camera) the
  overlay is submitted last, not first.
\<close>

theorem sort_scene_overlay_counterexample:
  "fst (sort_scene standard_lib overlay_scene (Some sample_camera)) =
     [sample_mesh 2 5 True True, sample_mesh 1 0 False False] \<and>
   \<not> depthTest (material (sample_mesh 1 0 False False)) \<and>
   depthTest (material (sample_mesh 2 5 True True))"
  by (simp add: sort_scene_def overlay_scene_def leaf_def sort_callback_def Array_sort_def
      sample_camera_fixed sort_compare_sample sample_mesh_flags)

subsection \<open>The cache, called twice\<close>






subsection \<open>Running a frame on a concrete scene\<close>

text \<open>
  The queue writes and the pipeline bindings of a frame are those of its node loop; the
  definitions below are what a run of the loop on a concrete scene unfolds.
\<close>

lemma length_write_floats [simp]: "length (write_floats bo off n src) = length bo"
proof -
  have "length (fold (\<lambda>i b. b[off + i := src ! i]) is bo) = length bo" for "is"
    by (induction "is" arbitrary: bo) simp_all
  then show ?thesis by (simp add: write_floats_def)
qed

lemma length_base_block [simp]: "length (base_block l mesh camera bo) = length bo"
  by (simp add: base_block_def Let_def split_def)

lemmas weak_congs =
  prod.case_cong_weak option.case_cong_weak list.case_cong_weak Uniform.case_cong_weak
  BufferSource.case_cong_weak

lemmas frame_defs =
  render_def begin_frame_def resizeSwapchain_def new_WebGPURenderer_def
  device_create_def device_createTexture_def device_createBuffer_def device_createSampler_def
  texture_createView_def texture_destroy_def fresh_handle_def emit_def queue_writeBuffer_def
  createBuffer_def byteLength_def contents_def
  cached_def weakCached_def uniforms_part_def uniformBuffer_part_def texture_part_def
  sampler_part_def pipeline_part_def indexBuffer_part_def vertexBuffer_part_def
  updatePipeline_def uniform_setup_def uniforms_onCreate_def new_uniform_def layout_entry_def
  update_base_uniform_def the_View_def new_Float32Array_def
  bind_uniform_def set_uniform_needsUpdate_def or_false_def
  pipeline_setup_def pipeline_stale_def create_pipeline_def fingerprint_def
  bind_indexBuffer_def bind_vertexBuffer_def vertexBuffer_onCreate_def set_vb_needsUpdate_def
  bind_group_def draw_node_def draw_call_def Let_def

lemma standard_updates [simp]:
  "Object3D_updateMatrix standard_lib scene = scene"
  "Camera_updateMatrix standard_lib camera = camera"
  by (simp_all add: standard_lib_def)

lemma sort_scene_Some: "snd (sort_scene l scene (Some camera)) = Some (update_projectionView l camera)"
  by (simp add: sort_scene_def Let_def)

lemma writes_render:
  "filter (writes_to b) (commands (render l scene camera s)) =
     filter (writes_to b)
       (commands (render_nodes l
          (fst (sort_scene l (Object3D_updateMatrix l scene) (Some (Camera_updateMatrix l camera))))
          (update_projectionView l (Camera_updateMatrix l camera)) (snd (begin_frame s))))"
  by (simp add: render_def Let_def split_def sort_scene_Some emit_def device_create_def
      fresh_handle_def)

lemma objects_render:
  "uniformBufferCache (render l scene camera s) =
     uniformBufferCache (render_nodes l
          (fst (sort_scene l (Object3D_updateMatrix l scene) (Some (Camera_updateMatrix l camera))))
          (update_projectionView l (Camera_updateMatrix l camera)) (snd (begin_frame s)))"
  "uniform_objects (render l scene camera s) =
     uniform_objects (render_nodes l
          (fst (sort_scene l (Object3D_updateMatrix l scene) (Some (Camera_updateMatrix l camera))))
          (update_projectionView l (Camera_updateMatrix l camera)) (snd (begin_frame s)))"
  by (simp_all add: render_def Let_def split_def sort_scene_Some emit_def device_create_def
      fresh_handle_def)

lemma SetPipelines_render:
  "filter is_SetPipeline (commands (render l scene camera s)) =
     filter is_SetPipeline
       (commands (render_nodes l
          (fst (sort_scene l (Object3D_updateMatrix l scene) (Some (Camera_updateMatrix l camera))))
          (update_projectionView l (Camera_updateMatrix l camera)) (snd (begin_frame s))))"
  by (simp add: render_def Let_def split_def sort_scene_Some emit_def device_create_def
      fresh_handle_def)

lemma dirty_sorted:
  "sort_scene standard_lib dirty_scene (Some sample_camera) =
     ([sample_mesh 1 0 True False], Some sample_camera)"
  by (simp add: sort_scene_def dirty_scene_def leaf_def sort_callback_def Array_sort_def
      sample_camera_fixed)

lemma twin_sorted:
  "sort_scene standard_lib twin_scene (Some sample_camera) =
     ([sample_mesh 1 0 True False, sample_mesh 2 0 True False], Some sample_camera)"
  by (simp add: sort_scene_def twin_scene_def leaf_def sort_callback_def Array_sort_def
      sample_camera_fixed sort_compare_sample)

lemma bind_uniform_cached_dirty:
  assumes "is_buffer (uniform_objects s v)"
    and "needsUpdate (uniform_objects s v) = Some True"
    and "uniformBufferCache s v = Some b"
  shows "bind_uniform i v s =
     ((i, BufferResource b),
      set_uniform_needsUpdate v False
        (queue_writeBuffer b
           (case value' (uniform_objects s v) of View t \<Rightarrow> byteOffset t | ArrayBuffer r \<Rightarrow> 0)
           (value' (uniform_objects s v)) s))"
  using assms
  by (cases "uniform_objects s v")
     (simp_all add: bind_uniform_def cached_def weakCached_def uniformBuffer_part_def or_false_def
       Let_def)

lemma bind_uniform_new_dirty:
  assumes "uniform_objects s v = UniformBuffer d (Some True)"
    and "uniformBufferCache s v = None"
  shows "commands (snd (bind_uniform i v s)) =
     commands s @
       [CreateBuffer (next_handle s) (Some (''uniform '' @ digits i @ '' buffer'')) (byteLength s d)
          (BufferUsage_UNIFORM OR BufferUsage_COPY_DST OR BufferUsage_STORAGE),
        WriteBuffer (next_handle s) 0 (byteLength s d) (contents s d),
        WriteBuffer (next_handle s) (case d of View t \<Rightarrow> byteOffset t | ArrayBuffer r \<Rightarrow> 0)
          (byteLength s d) (contents s d)]"
  using assms
  by (simp add: bind_uniform_def cached_def weakCached_def uniformBuffer_part_def or_false_def
      Let_def createBuffer_def device_createBuffer_def fresh_handle_def emit_def
      queue_writeBuffer_def byteLength_def contents_def set_uniform_needsUpdate_def
      split: BufferSource.splits)

text \<open>
  Claim C3, at the input where it fails. The material of the mesh has one buffer binding
  (object 30, four floats), written and marked dirty before the mesh is rendered for the
  first time. The frame creates GPU buffer 9 for it, leaves the flag false, and enqueues
  two writes of the same 16 bytes to that buffer: the upload that goes with the creation,
  and the dirty write, because the creation leaves the flag set (the creation of a vertex
  buffer, a texture or a sampler clears it). With a buffer already in the cache the dirty
  binding costs one write (\<open>bind_uniform_cached_dirty\<close>).
\<close>

theorem dirty_frame_writes:
  "uniform_arrays dirty_world (uniforms (material (sample_mesh 1 0 True False))) = [30] \<and>
   uniform_objects dirty_world 30 =
     UniformBuffer (View \<lparr>elems = [1, 2, 3, 4], BYTES_PER_ELEMENT = 4, byteOffset = 0\<rparr>) (Some True) \<and>
   uniformBufferCache dirty_world 30 = None \<and>
   uniformBufferCache
     (render standard_lib dirty_scene sample_camera
        (new_WebGPURenderer 300 150 ''bgra8unorm'' dirty_world)) 30 = Some 9 \<and>
   needsUpdate (uniform_objects
     (render standard_lib dirty_scene sample_camera
        (new_WebGPURenderer 300 150 ''bgra8unorm'' dirty_world)) 30) = Some False \<and>
   filter (writes_to 9)
     (commands (render standard_lib dirty_scene sample_camera
        (new_WebGPURenderer 300 150 ''bgra8unorm'' dirty_world))) =
   [WriteBuffer 9 0 16 [1, 2, 3, 4], WriteBuffer 9 0 16 [1, 2, 3, 4]]"
proof -
  let ?s = "render_nodes standard_lib [sample_mesh 1 0 True False] sample_camera
        (snd (begin_frame (new_WebGPURenderer 300 150 ''bgra8unorm'' dirty_world)))"
  have "filter (writes_to 9) (commands ?s) =
     [WriteBuffer 9 0 16 [1, 2, 3, 4], WriteBuffer 9 0 16 [1, 2, 3, 4]]"
    by (simp add: frame_defs dirty_world_def blank_def standard_lib_def
        sample_mesh_def sample_material_def sample_geometry_def cong: weak_congs)
  moreover have "uniformBufferCache ?s 30 = Some 9 \<and> needsUpdate (uniform_objects ?s 30) = Some False"
    by (simp add: frame_defs dirty_world_def blank_def standard_lib_def
        sample_mesh_def sample_material_def sample_geometry_def cong: weak_congs)
  ultimately show ?thesis
    by (simp add: writes_render objects_render dirty_sorted sample_camera_fixed)
       (simp add: dirty_world_def blank_def sample_mesh_def sample_material_def)
qed

subsection \<open>Draw calls\<close>

lemma steady_refl [simp]: "steady s s"
  by (simp add: steady_def)

lemma steady_trans: "steady s s1 \<Longrightarrow> steady s1 s2 \<Longrightarrow> steady s s2"
  by (simp add: steady_def)

lemma steady_emit: "\<not> is_draw c \<Longrightarrow> steady s s1 \<Longrightarrow> steady s (emit c s1)"
  by (simp add: steady_def draws_def emit_def)

lemma steady_fresh_handle: "steady s s1 \<Longrightarrow> steady s (snd (fresh_handle s1))"
  by (simp add: steady_def draws_def fresh_handle_def)

lemma steady_device_create:
  "(\<And>h. \<not> is_draw (c h)) \<Longrightarrow> steady s s1 \<Longrightarrow> steady s (snd (device_create c s1))"
  by (simp add: steady_def draws_def device_create_def fresh_handle_def emit_def)

lemma steady_cached:
  assumes part: "\<And>m s0 s1. steady s0 s1 \<Longrightarrow> steady s0 (snd part m s1)"
    and create: "\<And>s0 s1. steady s0 s1 \<Longrightarrow> steady s0 (snd (onCreate s1))"
    and stale: "\<And>f old s0 s1. stale = Some f \<Longrightarrow> steady s0 s1 \<Longrightarrow> steady s0 (snd (f old s1))"
    and s: "steady s s1"
  shows "steady s (snd (cached part k onCreate stale s1))"
proof -
  have c: "steady s (snd (case onCreate s2 of (v, s3) \<Rightarrow> (v, snd part ((fst part s3)(k \<mapsto> v)) s3)))"
    if "steady s s2" for s2
    using part [OF create [OF that]] by (simp add: split_def)
  show ?thesis
  proof (cases "fst part s1 k")
    case None
    then show ?thesis using c [OF s] by (simp add: cached_def weakCached_def)
  next
    case (Some old)
    show ?thesis
    proof (cases stale)
      case None
      then show ?thesis using Some s by (simp add: cached_def weakCached_def)
    next
      case (Some f)
      obtain b s2 where f: "f old s1 = (b, s2)" by (cases "f old s1")
      have "steady s s2" using stale [OF Some s, of old] f by simp
      then show ?thesis
        using \<open>fst part s1 k = Some old\<close> Some f c [of s2]
        by (cases b) (auto simp: cached_def weakCached_def)
    qed
  qed
qed

lemma steady_parts:
  "steady s s1 \<Longrightarrow> steady s (snd uniforms_part m1 s1)"
  "steady s s1 \<Longrightarrow> steady s (snd uniformBuffer_part m2 s1)"
  "steady s s1 \<Longrightarrow> steady s (snd texture_part m3 s1)"
  "steady s s1 \<Longrightarrow> steady s (snd sampler_part m2 s1)"
  "steady s s1 \<Longrightarrow> steady s (snd pipeline_part m5 s1)"
  "steady s s1 \<Longrightarrow> steady s (snd indexBuffer_part m2 s1)"
  "steady s s1 \<Longrightarrow> steady s (snd vertexBuffer_part m2 s1)"
  by (simp_all add: steady_def draws_def uniforms_part_def uniformBuffer_part_def texture_part_def
      sampler_part_def pipeline_part_def indexBuffer_part_def vertexBuffer_part_def)

lemma steady_set_uniform_needsUpdate:
  "steady s s1 \<Longrightarrow> steady s (set_uniform_needsUpdate r b s1)"
  by (simp add: steady_def draws_def set_uniform_needsUpdate_def)

lemma steady_set_vb_needsUpdate: "steady s s1 \<Longrightarrow> steady s (set_vb_needsUpdate r b s1)"
  by (simp add: steady_def draws_def set_vb_needsUpdate_def)

lemma steady_queue_writeBuffer: "steady s s1 \<Longrightarrow> steady s (queue_writeBuffer b off d s1)"
  by (simp add: queue_writeBuffer_def steady_emit)

lemma steady_createBuffer: "steady s s1 \<Longrightarrow> steady s (snd (createBuffer d u lbl s1))"
  by (simp add: steady_def draws_def createBuffer_def device_createBuffer_def fresh_handle_def
      queue_writeBuffer_def emit_def)

lemma steady_texture_createView: "steady s s1 \<Longrightarrow> steady s (snd (texture_createView t s1))"
  by (simp add: steady_def draws_def texture_createView_def fresh_handle_def emit_def)

lemma steady_texture_destroy: "steady s s1 \<Longrightarrow> steady s (texture_destroy t s1)"
  by (simp add: texture_destroy_def steady_emit)

lemma steady_sampler_onCreate: "steady s s1 \<Longrightarrow> steady s (snd (sampler_onCreate r s1))"
  by (simp add: sampler_onCreate_def steady_def draws_def device_createSampler_def
      fresh_handle_def emit_def set_uniform_needsUpdate_def)

lemma steady_updateSampler: "steady s s1 \<Longrightarrow> steady s (snd (updateSampler r s1))"
  unfolding updateSampler_def
  by (rule steady_cached) (auto simp: steady_parts steady_sampler_onCreate sampler_stale_def)

lemma steady_texture_onCreate: "steady s s1 \<Longrightarrow> steady s (snd (texture_onCreate r s1))"
  by (simp add: texture_onCreate_def steady_def draws_def Let_def device_createTexture_def
      fresh_handle_def emit_def set_uniform_needsUpdate_def split: Uniform.splits option.splits)

lemma steady_texture_stale: "steady s s1 \<Longrightarrow> steady s (snd (texture_stale r old s1))"
  by (simp add: texture_stale_def Let_def steady_texture_destroy)

lemma steady_updateTexture: "steady s s1 \<Longrightarrow> steady s (snd (updateTexture r s1))"
  unfolding updateTexture_def
  by (rule steady_cached)
     (auto simp: steady_parts steady_texture_onCreate steady_texture_stale)

lemma steady_uniforms_onCreate: "steady s s1 \<Longrightarrow> steady s (snd (uniforms_onCreate mesh s1))"
  by (simp add: uniforms_onCreate_def steady_def draws_def Let_def new_uniform_def
      device_create_def fresh_handle_def emit_def)

lemma steady_uniform_setup: "steady s s1 \<Longrightarrow> steady s (snd (uniform_setup mesh s1))"
  unfolding uniform_setup_def
  by (rule steady_cached) (simp_all add: steady_parts steady_uniforms_onCreate)

lemma steady_update_base_uniform:
  "steady s s1 \<Longrightarrow> steady s (update_base_uniform l mesh camera us s1)"
  by (simp add: steady_def draws_def update_base_uniform_def Let_def)

lemma steady_cached_createBuffer:
  "steady s s1 \<Longrightarrow> steady s (snd (cached uniformBuffer_part v (createBuffer d u lbl) None s1))"
  "steady s s1 \<Longrightarrow> steady s (snd (cached indexBuffer_part v (createBuffer d u lbl) None s1))"
  by (rule steady_cached; simp add: steady_parts steady_createBuffer)+

lemma steady_bind_uniform: "steady s s1 \<Longrightarrow> steady s (snd (bind_uniform i v s1))"
  by (cases "uniform_objects s1 v")
     (simp_all add: bind_uniform_def split_def Let_def steady_cached_createBuffer
       steady_set_uniform_needsUpdate steady_queue_writeBuffer steady_updateTexture
       steady_texture_createView steady_updateSampler)

lemma steady_uniform_binding: "steady s s1 \<Longrightarrow> steady s (snd (uniform_binding i us s1))"
  by (induction us arbitrary: i s1) (simp_all add: split_def steady_bind_uniform)

lemma steady_create_pipeline:
  "steady s s1 \<Longrightarrow> steady s (snd (create_pipeline mesh bgl opt key s1))"
  by (simp add: steady_def draws_def create_pipeline_def Let_def device_create_def fresh_handle_def
      emit_def split_def)

lemma steady_pipeline_setup: "steady s s1 \<Longrightarrow> steady s (snd (pipeline_setup l mesh bgl s1))"
  unfolding pipeline_setup_def Let_def
  by (rule steady_cached) (auto simp: steady_parts steady_create_pipeline pipeline_stale_def)

lemma steady_bind_indexBuffer: "steady s s1 \<Longrightarrow> steady s (bind_indexBuffer mesh s1)"
  by (cases "indexBuffer (geometry mesh)")
     (simp_all add: bind_indexBuffer_def split_def steady_emit steady_cached_createBuffer)

lemma steady_vertexBuffer_onCreate:
  "steady s s1 \<Longrightarrow> steady s (snd (vertexBuffer_onCreate vb s1))"
  by (simp add: vertexBuffer_onCreate_def Let_def steady_createBuffer steady_set_vb_needsUpdate)

lemma steady_bind_vertexBuffer: "steady s s1 \<Longrightarrow> steady s (bind_vertexBuffer i vb s1)"
proof -
  assume s: "steady s s1"
  have "steady s (snd (cached vertexBuffer_part vb (vertexBuffer_onCreate vb) None s1))"
    by (rule steady_cached) (simp_all add: steady_parts steady_vertexBuffer_onCreate s)
  then show ?thesis
    by (simp add: bind_vertexBuffer_def split_def Let_def steady_emit steady_set_vb_needsUpdate
        steady_queue_writeBuffer)
qed

lemma steady_bind_vertexBuffers: "steady s s1 \<Longrightarrow> steady s (bind_vertexBuffers i vbs s1)"
  by (induction vbs arbitrary: i s1) (simp_all add: steady_bind_vertexBuffer)

lemma steady_bind_group: "steady s s1 \<Longrightarrow> steady s (bind_group bgl es s1)"
  by (simp add: bind_group_def split_def steady_device_create steady_emit)

lemma steady_updatePipeline: "steady s s1 \<Longrightarrow> steady s (updatePipeline l mesh camera s1)"
  by (simp add: updatePipeline_def split_def steady_uniform_setup steady_update_base_uniform
      steady_uniform_binding steady_pipeline_setup steady_emit steady_bind_indexBuffer
      steady_bind_vertexBuffers steady_bind_group)

lemma draw_call_same_data:
  "(\<And>r. buffer (vertex_buffer_objects s1 r) = buffer (vertex_buffer_objects s r) \<and>
        layout (vertex_buffer_objects s1 r) = layout (vertex_buffer_objects s r)) \<Longrightarrow>
   draw_call node s1 = draw_call node s"
  by (simp add: draw_call_def Let_def split: option.splits list.splits)

lemma is_draw_draw_call: "is_draw (draw_call node s)"
  by (simp add: draw_call_def Let_def split: option.splits list.splits)

lemma draws_render_nodes:
  "(\<And>r. buffer (vertex_buffer_objects s1 r) = buffer (vertex_buffer_objects s r) \<and>
        layout (vertex_buffer_objects s1 r) = layout (vertex_buffer_objects s r)) \<Longrightarrow>
   draws (render_nodes l nodes camera s1) = draws s1 @ map (\<lambda>node. draw_call node s) nodes"
proof (induction nodes arbitrary: s1)
  case Nil
  then show ?case by simp
next
  case (Cons node nodes)
  let ?s2 = "updatePipeline l node camera s1"
  have st: "steady s1 ?s2"
    by (rule steady_updatePipeline) simp
  then have data: "buffer (vertex_buffer_objects ?s2 r) = buffer (vertex_buffer_objects s r) \<and>
        layout (vertex_buffer_objects ?s2 r) = layout (vertex_buffer_objects s r)" for r
    using Cons.prems by (simp add: steady_def)
  have call: "draw_call node ?s2 = draw_call node s"
    by (rule draw_call_same_data) (rule data)
  have "draws (render_nodes l nodes camera (draw_node node ?s2)) =
          draws (draw_node node ?s2) @ map (\<lambda>node. draw_call node s) nodes"
    by (rule Cons.IH) (simp add: draw_node_def emit_def data)
  moreover have "draws (draw_node node ?s2) = draws s1 @ [draw_call node s]"
    using st is_draw_draw_call [of node s]
    by (simp add: draw_node_def emit_def draws_def steady_def call)
  ultimately show ?case by simp
qed

lemma steady_resizeSwapchain: "steady s s1 \<Longrightarrow> steady s (resizeSwapchain s1)"
  by (simp add: resizeSwapchain_def Let_def steady_def draws_def emit_def device_createTexture_def
      fresh_handle_def texture_createView_def texture_destroy_def split: option.splits)

lemma steady_begin_frame: "steady s s1 \<Longrightarrow> steady s (snd (begin_frame s1))"
  by (simp add: begin_frame_def Let_def split_def steady_emit steady_device_create
      steady_texture_createView steady_resizeSwapchain)

lemma draws_emit_other: "\<not> is_draw c \<Longrightarrow> draws (emit c s) = draws s"
  by (simp add: draws_def emit_def)

lemma draws_device_create: "(\<And>h. \<not> is_draw (c h)) \<Longrightarrow> draws (snd (device_create c s)) = draws s"
  by (simp add: draws_def device_create_def fresh_handle_def emit_def)

lemma draws_render:
  "draws (render l scene camera s) =
     draws s @
     map (\<lambda>node. draw_call node s)
       (fst (sort_scene l (Object3D_updateMatrix l scene) (Some (Camera_updateMatrix l camera))))"
proof -
  let ?s1 = "snd (begin_frame s)"
  have st: "steady s ?s1"
    by (rule steady_begin_frame) simp
  then have data: "buffer (vertex_buffer_objects ?s1 r) = buffer (vertex_buffer_objects s r) \<and>
        layout (vertex_buffer_objects ?s1 r) = layout (vertex_buffer_objects s r)" for r
    by (simp add: steady_def)
  have d1: "draws ?s1 = draws s"
    using st by (simp add: steady_def)
  have nodes: "draws (render_nodes l nodes c ?s1) = draws s @ map (\<lambda>node. draw_call node s) nodes"
    for nodes c
    using draws_render_nodes [of ?s1 s l nodes c] data d1 by simp
  show ?thesis
    by (simp add: render_def Let_def split_def sort_scene_Some draws_emit_other draws_device_create
        nodes)
qed

text \<open>
  Claim C4. A frame issues one draw call per node of the sorted render list, in that
  order. For a node whose geometry has an index buffer the call is an indexed draw whose
  count is the minimum of the declared draw-range count and the number of elements of the
  index buffer, with the node's instance count and the start of its draw range (0 when
  none is declared); so a declared count above the number of indices, or no declared
  bound at all, gives the number of indices.
\<close>

theorem render_indexed_draw:
  "draws (render l scene camera s) =
     draws s @
     map (\<lambda>node. draw_call node s)
       (fst (sort_scene l (Object3D_updateMatrix l scene) (Some (Camera_updateMatrix l camera)))) \<and>
   (indexBuffer (geometry node) = Some ib \<longrightarrow>
      draw_call node s =
        DrawIndexed (Math_min (drawRange_count (geometry node))
                       (Num (real (length (elems (ib_buffer ib))))))
          (instanceCount (geometry node)) (or_else (drawRange_start (geometry node)) 0)) \<and>
   (indexBuffer (geometry node) = Some ib \<and> drawRange_count (geometry node) = Num c \<longrightarrow>
      draw_call node s =
        DrawIndexed (Num (min c (real (length (elems (ib_buffer ib))))))
          (instanceCount (geometry node)) (or_else (drawRange_start (geometry node)) 0)) \<and>
   (indexBuffer (geometry node) = Some ib \<and>
      (drawRange_count (geometry node) = Infinity \<or>
       (\<exists>c. drawRange_count (geometry node) = Num c \<and> real (length (elems (ib_buffer ib))) < c)) \<longrightarrow>
      draw_call node s =
        DrawIndexed (Num (real (length (elems (ib_buffer ib)))))
          (instanceCount (geometry node)) (or_else (drawRange_start (geometry node)) 0))"
  by (auto simp: draws_render draw_call_def Let_def or_else_def split: option.splits)

lemma resizeSwapchain_commands:
  "commands (resizeSwapchain s) =
     commands s @ [Configure (format s)] @ destroy_old (msaaTexture s) @
       [CreateTexture (next_handle s) (format s) [canvas_width s, canvas_height s] (TextureUsage_COPY_DST OR TextureUsage_RENDER_ATTACHMENT) (samples s),
        CreateView (next_handle s + 1) (next_handle s)] @
       destroy_old (depthTexture s) @
       [CreateTexture (next_handle s + 2) ''depth24plus-stencil8'' [canvas_width s, canvas_height s]
          (TextureUsage_COPY_DST OR TextureUsage_RENDER_ATTACHMENT) (samples s),
        CreateView (next_handle s + 3) (next_handle s + 2)]"
  by (simp add: resizeSwapchain_def Let_def emit_def device_createTexture_def fresh_handle_def
      texture_createView_def texture_destroy_def destroy_old_def 
      split: option.splits)

lemma resizeSwapchain_fields:
  "msaaTexture (resizeSwapchain s) = Some \<lparr>texture_id = next_handle s, texture_sampleCount = samples s\<rparr>"
  "depthTexture (resizeSwapchain s) =
     Some \<lparr>texture_id = next_handle s + 2, texture_sampleCount = samples s\<rparr>"
  "msaaTextureView (resizeSwapchain s) = Some (next_handle s + 1)"
  "depthTextureView (resizeSwapchain s) = Some (next_handle s + 3)"
  "next_handle (resizeSwapchain s) = next_handle s + 4"
  "format (resizeSwapchain s) = format s"
  "samples (resizeSwapchain s) = samples s"
  "canvas_width (resizeSwapchain s) = canvas_width s"
  "canvas_height (resizeSwapchain s) = canvas_height s"
  by (simp_all add: resizeSwapchain_def Let_def emit_def device_createTexture_def fresh_handle_def
      texture_createView_def texture_destroy_def split: option.splits)

lemma draws_new_WebGPURenderer: "draws (new_WebGPURenderer w h fmt blank) = []"
  by (simp add: new_WebGPURenderer_def resizeSwapchain_commands draws_def blank_def destroy_old_def)

lemma sort_single:
  "fst (sort_scene l (leaf m) camera) = [m]"
  by (simp add: sort_scene_def Let_def leaf_def sort_callback_def Array_sort_def)

theorem render_indexed_draw_witness:
  "draws (render standard_lib (leaf indexed_mesh) sample_camera
            (new_WebGPURenderer 300 150 ''bgra8unorm'' triangle_world)) =
     [DrawIndexed (Num 3) 1 0]"
proof -
  let ?s = "new_WebGPURenderer 300 150 ''bgra8unorm'' triangle_world"
  have ib: "indexBuffer (geometry indexed_mesh) = Some (sample_ib 11 [0, 1, 2])"
    and inf: "drawRange_count (geometry indexed_mesh) = Infinity"
    by (simp_all add: indexed_mesh_def sample_geometry_def)
  have d0: "draws ?s = []"
    by (simp add: new_WebGPURenderer_def resizeSwapchain_commands draws_def triangle_world_def
        blank_def destroy_old_def)
  from render_indexed_draw [of standard_lib "leaf indexed_mesh" sample_camera ?s indexed_mesh
      "sample_ib 11 [0, 1, 2]"] ib inf
  have "draws (render standard_lib (leaf indexed_mesh) sample_camera ?s) =
          draws ?s @ [draw_call indexed_mesh ?s]"
    and "draw_call indexed_mesh ?s =
          DrawIndexed (Num (real (length (elems (ib_buffer (sample_ib 11 [0, 1, 2]))))))
            (instanceCount (geometry indexed_mesh)) (or_else (drawRange_start (geometry indexed_mesh)) 0)"
    by (simp_all add: sort_single)
  then show ?thesis
    by (simp add: d0 sample_ib_def indexed_mesh_def sample_geometry_def or_else_def)
qed

text \<open>
  Claim C5, at the input where it fails. The triangle has no index buffer; its vertex
  buffer is a \<^verbatim>\<open>Float32Array\<close> of nine floats (36 bytes) with a stride of 12 bytes, and
  the draw range declares three vertices. The byte length divided by the stride is 3, and
  so is the minimum the claim describes; the frame issues a draw of 3/4 of a vertex,
  because the code divides the number of elements of the array, 9, by the stride in
  bytes.
\<close>

theorem render_triangle_draw:
  "draws (render standard_lib (leaf triangle_mesh) sample_camera
            (new_WebGPURenderer 300 150 ''bgra8unorm'' triangle_world)) =
     [Draw (Num (3 / 4)) 1 0] \<and>
   Math_min (drawRange_count (geometry triangle_mesh))
     (divide_lengths
        (length (elems (buffer (vertex_buffer_objects triangle_world 10))) *
         BYTES_PER_ELEMENT (buffer (vertex_buffer_objects triangle_world 10)))
        (arrayStride (layout (vertex_buffer_objects triangle_world 10)))) = Num 3"
proof -
  let ?s = "new_WebGPURenderer 300 150 ''bgra8unorm'' triangle_world"
  have d0: "draws ?s = []"
    by (simp add: new_WebGPURenderer_def resizeSwapchain_commands draws_def triangle_world_def
        blank_def destroy_old_def)
  have vb: "vertex_buffer_objects ?s 10 = sample_vb ''POSITION'' ''vec3f'' [0, 0, 0, 1, 0, 0, 0, 1, 0] 12"
    by (simp add: new_WebGPURenderer_def resizeSwapchain_def Let_def emit_def device_createTexture_def
        fresh_handle_def texture_createView_def triangle_world_def blank_def)
  have call: "draw_call triangle_mesh ?s = Draw (Num (3 / 4)) 1 0"
    by (simp add: draw_call_def Let_def triangle_mesh_def sample_geometry_def vb sample_vb_def
        divide_lengths_def)
  show ?thesis
    by (simp add: draws_render sort_single d0 call)
       (simp add: triangle_world_def blank_def sample_vb_def triangle_mesh_def sample_geometry_def
         divide_lengths_def)
qed

subsection \<open>Pipelines\<close>

lemma pipeline_setup_stored:
  assumes "pipeline_setup l mesh bgl s = (p, s1)"
  shows "pipelineCache s1 (mesh_ref mesh) = Some p \<and>
         pipeline_label p = JSON_stringify l (fingerprint mesh s)"
  using assms
  by (auto simp: pipeline_setup_def cached_def weakCached_def pipeline_part_def Let_def
      create_pipeline_def device_create_def fresh_handle_def emit_def pipeline_stale_def
      split: option.splits if_splits bool.splits)

lemma pipeline_setup_new:
  assumes "pipelineCache s (mesh_ref mesh) = None"
  shows "pipeline_id (fst (pipeline_setup l mesh bgl s)) = next_handle s + 2 \<and>
         filter is_CreateRenderPipeline (commands (snd (pipeline_setup l mesh bgl s))) =
           filter is_CreateRenderPipeline (commands s) @
             [CreateRenderPipeline (next_handle s + 2)
                \<lparr>descriptor_layout = next_handle s + 1,
                 descriptor_label = JSON_stringify l (fingerprint mesh s),
                 descriptor_module = next_handle s,
                 descriptor_buffers = vertexBufferLayouts (fingerprint mesh s),
                 descriptor_target_format = format s,
                 descriptor_cullMode = cullMode (material mesh),
                 descriptor_topology = topology (geometry mesh),
                 descriptor_depthWriteEnabled = depthWriteEnabled (fingerprint mesh s),
                 descriptor_depthCompare = depthCompare (fingerprint mesh s),
                 descriptor_multisample_count = option_samples (fingerprint mesh s)\<rparr>]"
  using assms
  by (simp add: pipeline_setup_def cached_def weakCached_def pipeline_part_def Let_def
      create_pipeline_def device_create_def fresh_handle_def emit_def)

text \<open>
  Claim C6, amended. The pipeline cache has one entry per mesh object, and the
  fingerprint decides whether that entry is stale. A mesh that is set up again while its
  entry is in place and its serialised fingerprint is the one of the previous setup gets
  the same pipeline object back, and nothing is created. A mesh with no entry of its own
  gets a new pipeline, whatever the fingerprints of the pipelines other meshes have.
\<close>

theorem pipeline_reuse:
  assumes first: "pipeline_setup l mesh bgl s = (p, s1)"
    and kept: "pipelineCache s2 (mesh_ref mesh) = pipelineCache s1 (mesh_ref mesh)"
    and same: "JSON_stringify l (fingerprint mesh s2) = JSON_stringify l (fingerprint mesh s)"
  shows "pipeline_setup l mesh bgl2 s2 = (p, s2) \<and>
         (pipelineCache s2 (mesh_ref other) = None \<longrightarrow>
            pipeline_id (fst (pipeline_setup l other bgl3 s2)) = next_handle s2 + 2 \<and>
            filter is_CreateRenderPipeline (commands (snd (pipeline_setup l other bgl3 s2))) =
              filter is_CreateRenderPipeline (commands s2) @
                [CreateRenderPipeline (next_handle s2 + 2)
                   \<lparr>descriptor_layout = next_handle s2 + 1,
                    descriptor_label = JSON_stringify l (fingerprint other s2),
                    descriptor_module = next_handle s2,
                    descriptor_buffers = vertexBufferLayouts (fingerprint other s2),
                    descriptor_target_format = format s2,
                    descriptor_cullMode = cullMode (material other),
                    descriptor_topology = topology (geometry other),
                    descriptor_depthWriteEnabled = depthWriteEnabled (fingerprint other s2),
                    descriptor_depthCompare = depthCompare (fingerprint other s2),
                    descriptor_multisample_count = option_samples (fingerprint other s2)\<rparr>])"
proof -
  from pipeline_setup_stored [OF first] kept
  have stored: "pipelineCache s2 (mesh_ref mesh) = Some p"
    and label: "pipeline_label p = JSON_stringify l (fingerprint mesh s)"
    by simp_all
  have "pipeline_setup l mesh bgl2 s2 = (p, s2)"
    using stored label same
    by (simp add: pipeline_setup_def cached_def weakCached_def pipeline_part_def Let_def
        pipeline_stale_def)
  then show ?thesis
    using pipeline_setup_new [of s2 other l bgl3] by blast
qed

theorem pipeline_reuse_witness:
  "pipeline_setup standard_lib (sample_mesh 1 0 True False) 9
     (snd (pipeline_setup standard_lib (sample_mesh 1 0 True False) 0 blank)) =
   pipeline_setup standard_lib (sample_mesh 1 0 True False) 0 blank \<and>
   pipeline_id (fst (pipeline_setup standard_lib (sample_mesh 1 0 True False) 0 blank)) = 2 \<and>
   pipeline_id (fst (pipeline_setup standard_lib (sample_mesh 2 0 True False) 0
     (snd (pipeline_setup standard_lib (sample_mesh 1 0 True False) 0 blank)))) = 5"
proof -
  let ?m = "sample_mesh 1 0 True False"
  let ?r = "pipeline_setup standard_lib ?m 0 blank"
  have run: "?r = (fst ?r, snd ?r)"
    by simp
  have id: "pipeline_id (fst ?r) = 2"
    and nh: "next_handle (snd ?r) = 3"
    and cache: "pipelineCache (snd ?r) (mesh_ref (sample_mesh 2 0 True False)) = None"
    by (simp_all add: pipeline_setup_def cached_def weakCached_def pipeline_part_def Let_def
        create_pipeline_def device_create_def fresh_handle_def emit_def
        blank_def sample_mesh_def)
  have same: "JSON_stringify standard_lib (fingerprint ?m (snd ?r)) =
              JSON_stringify standard_lib (fingerprint ?m blank)"
    by (simp add: pipeline_setup_def cached_def weakCached_def pipeline_part_def Let_def
        create_pipeline_def device_create_def fresh_handle_def emit_def fingerprint_def
        blank_def)
  from pipeline_reuse [of standard_lib ?m 0 blank "fst ?r" "snd ?r" "snd ?r" 9
      "sample_mesh 2 0 True False" 0, OF run refl same] cache nh id
  show ?thesis
    by simp
qed

text \<open>
  Claim C6 as stated fails: the two meshes of \<open>twin_scene\<close> have equal fingerprints,
  and the frame binds pipeline 11 for the first draw and pipeline 17 for the second.
\<close>

theorem twin_pipelines_counterexample:
  "fingerprint (sample_mesh 1 0 True False) (new_WebGPURenderer 300 150 ''bgra8unorm'' blank) =
   fingerprint (sample_mesh 2 0 True False) (new_WebGPURenderer 300 150 ''bgra8unorm'' blank) \<and>
   filter is_SetPipeline
     (commands (render standard_lib twin_scene sample_camera
        (new_WebGPURenderer 300 150 ''bgra8unorm'' blank))) = [SetPipeline 11, SetPipeline 17]"
proof -
  have "filter is_SetPipeline
     (commands (render_nodes standard_lib [sample_mesh 1 0 True False, sample_mesh 2 0 True False]
        sample_camera (snd (begin_frame (new_WebGPURenderer 300 150 ''bgra8unorm'' blank))))) =
     [SetPipeline 11, SetPipeline 17]"
    by (simp add: frame_defs blank_def standard_lib_def
        sample_mesh_def sample_material_def sample_geometry_def cong: weak_congs)
  then show ?thesis
    by (simp add: SetPipelines_render twin_sorted sample_camera_fixed)
       (simp add: fingerprint_def sample_mesh_def sample_material_def sample_geometry_def)
qed

subsection \<open>The base uniform block\<close>





lemma nth_Mat4_copy: "i < 16 \<Longrightarrow> Mat4_copy a ! i = a ! i"
  by (simp add: Mat4_copy_def)






subsection \<open>The vertex input struct\<close>

















subsection \<open>Render targets\<close>

text \<open>
  Claim C9. A call of \<open>setSize\<close> configures the surface, destroys the MSAA texture and
  the depth texture there were, each before its replacement is created, and creates both
  with the given width and height. A second call with the same size destroys the two
  textures of the first call and creates two of the same size, format, usage and sample
  count; of the textures created by the two calls only those of the second are left
  undestroyed.
\<close>

theorem setSize_twice:
  "commands (setSize w h s) =
     commands s @ [Configure (format s)] @ destroy_old (msaaTexture s) @
       [CreateTexture (next_handle s) (format s) [w, h]
          (TextureUsage_COPY_DST OR TextureUsage_RENDER_ATTACHMENT) (samples s),
        CreateView (next_handle s + 1) (next_handle s)] @
       destroy_old (depthTexture s) @
       [CreateTexture (next_handle s + 2) ''depth24plus-stencil8'' [w, h]
          (TextureUsage_COPY_DST OR TextureUsage_RENDER_ATTACHMENT) (samples s),
        CreateView (next_handle s + 3) (next_handle s + 2)] \<and>
   commands (setSize w h (setSize w h s)) =
     commands (setSize w h s) @
       [Configure (format s),
        DestroyTexture (next_handle s),
        CreateTexture (next_handle s + 4) (format s) [w, h]
          (TextureUsage_COPY_DST OR TextureUsage_RENDER_ATTACHMENT) (samples s),
        CreateView (next_handle s + 5) (next_handle s + 4),
        DestroyTexture (next_handle s + 2),
        CreateTexture (next_handle s + 6) ''depth24plus-stencil8'' [w, h]
          (TextureUsage_COPY_DST OR TextureUsage_RENDER_ATTACHMENT) (samples s),
        CreateView (next_handle s + 7) (next_handle s + 6)] \<and>
   live_textures (drop (length (commands s)) (commands (setSize w h (setSize w h s)))) =
     [next_handle s + 4, next_handle s + 6]"
  apply (intro conjI)
  subgoal by (simp add: setSize_def resizeSwapchain_commands)
  subgoal by (simp add: setSize_def resizeSwapchain_commands resizeSwapchain_fields destroy_old_def)
  subgoal by (simp add: setSize_def resizeSwapchain_commands resizeSwapchain_fields destroy_old_def
    split: option.splits)
  done

theorem setSize_twice_witness:
  "live_textures (commands (setSize 640 480 (setSize 640 480
      (new_WebGPURenderer 300 150 ''bgra8unorm'' blank)))) = [8, 10] \<and>
   commands (setSize 640 480 (setSize 640 480 (new_WebGPURenderer 300 150 ''bgra8unorm'' blank))) =
     commands (setSize 640 480 (new_WebGPURenderer 300 150 ''bgra8unorm'' blank)) @
       [Configure ''bgra8unorm'', DestroyTexture 4,
        CreateTexture 8 ''bgra8unorm'' [640, 480] 18 4, CreateView 9 8,
        DestroyTexture 6,
        CreateTexture 10 ''depth24plus-stencil8'' [640, 480] 18 4, CreateView 11 10]"
proof -
  let ?s = "new_WebGPURenderer 300 150 ''bgra8unorm'' blank"
  have s: "next_handle ?s = 4" "format ?s = ''bgra8unorm''" "samples ?s = 4"
    "msaaTexture ?s = Some \<lparr>texture_id = 0, texture_sampleCount = 4\<rparr>"
    "depthTexture ?s = Some \<lparr>texture_id = 2, texture_sampleCount = 4\<rparr>"
    "commands ?s = [Configure ''bgra8unorm'', CreateTexture 0 ''bgra8unorm'' [300, 150] 18 4,
       CreateView 1 0, CreateTexture 2 ''depth24plus-stencil8'' [300, 150] 18 4, CreateView 3 2]"
    by (simp_all add: new_WebGPURenderer_def resizeSwapchain_fields resizeSwapchain_commands
        blank_def destroy_old_def TextureUsage_COPY_DST_def TextureUsage_RENDER_ATTACHMENT_def)
  from setSize_twice [of 640 480 ?s] show ?thesis
    by (simp add: s destroy_old_def TextureUsage_COPY_DST_def TextureUsage_RENDER_ATTACHMENT_def)
qed

subsection \<open>PBRMaterial setters\<close>

lemma set_needsUpdate_sel [simp]:
  "needsUpdate (set_needsUpdate b u) = Some b"
  "is_buffer (set_needsUpdate b u) = is_buffer u"
  "is_buffer u \<Longrightarrow> value' (set_needsUpdate b u) = value' u"
  by (cases u; simp)+

lemma length_view_put [simp]:
  "length (array_buffers (view_put v i x s) r) = length (array_buffers s r)"
  by (simp add: view_put_def)

lemma view_put_frame [simp]:
  "uniform_arrays (view_put v i x s) = uniform_arrays s"
  "uniform_objects (view_put v i x s) = uniform_objects s"
  "uniformBufferCache (view_put v i x s) = uniformBufferCache s"
  by (simp_all add: view_put_def)

lemma put_Vec3_frame [simp]:
  "length (array_buffers (put_Vec3 v a s) r) = length (array_buffers s r)"
  "uniform_arrays (put_Vec3 v a s) = uniform_arrays s"
  "uniform_objects (put_Vec3 v a s) = uniform_objects s"
  by (simp_all add: put_Vec3_def split_def)

lemma dirty_first_sel [simp]:
  "array_buffers (dirty_first m s) = array_buffers s"
  "uniform_arrays (dirty_first m s) = uniform_arrays s"
  "uniform_objects (dirty_first m s) =
     (uniform_objects s)(uniform_arrays s (uniforms m) ! 0 :=
        set_needsUpdate True (uniform_objects s (uniform_arrays s (uniforms m) ! 0)))"
  by (simp_all add: dirty_first_def set_uniform_needsUpdate_def)

lemma set_uniform_at_sel [simp]:
  "array_buffers (set_uniform_at m i v s) = array_buffers s"
  "uniform_objects (set_uniform_at m i v s) = uniform_objects s"
  "uniform_arrays (set_uniform_at m i v s) (uniforms m) = (uniform_arrays s (uniforms m))[i := v]"
  by (simp_all add: set_uniform_at_def)

lemma assign_first:
  "uniform_arrays (assign env m op s) (uniforms m) ! 0 = uniform_arrays s (uniforms m) ! 0"
  by (cases op)
     (simp_all add: set_albedo_def set_metallic_def set_roughness_def set_occlusion_def
       set_albedoTexture_def set_occlusionRoughnessMetallicTexture_def Let_def)

lemma assign_objects:
  "uniform_objects (assign env m op s) =
     (uniform_objects s)(uniform_arrays s (uniforms m) ! 0 :=
        set_needsUpdate True (uniform_objects s (uniform_arrays s (uniforms m) ! 0)))"
  by (cases op)
     (simp_all add: set_albedo_def set_metallic_def set_roughness_def set_occlusion_def
       set_albedoTexture_def set_occlusionRoughnessMetallicTexture_def Let_def)

lemma assign_length:
  "length (array_buffers (assign env m op s) r) = length (array_buffers s r)"
  by (cases op)
     (simp_all add: set_albedo_def set_metallic_def set_roughness_def set_occlusion_def
       set_albedoTexture_def set_occlusionRoughnessMetallicTexture_def Let_def)

lemma assign_nonempty:
  "uniform_arrays (assign env m op s) (uniforms m) = [] \<longleftrightarrow> uniform_arrays s (uniforms m) = []"
  by (cases op)
     (simp_all add: set_albedo_def set_metallic_def set_roughness_def set_occlusion_def
       set_albedoTexture_def set_occlusionRoughnessMetallicTexture_def Let_def)

lemma assign_ok: "pbr_ok m s \<Longrightarrow> pbr_ok m (assign env m op s)"
  by (simp add: pbr_ok_def assign_first assign_objects assign_length assign_nonempty)

lemma assign_flag:
  assumes "pbr_ok m s"
  shows "array_buffers (assign env m (AlbedoTexture v) s) (pbrBuffer m) ! 6 =
           setBitOfValue env (array_buffers s (pbrBuffer m) ! 6) 0 (v \<noteq> None)"
    and "array_buffers (assign env m (OcclusionRoughnessMetallicTexture v) s) (pbrBuffer m) ! 6 =
           setBitOfValue env (array_buffers s (pbrBuffer m) ! 6) 1 (v \<noteq> None)"
  using assms
  by (simp_all add: pbr_ok_def set_albedoTexture_def set_occlusionRoughnessMetallicTexture_def
      Let_def view_put_def view_get_def)

text \<open>
  Claim C10. On a material as its constructor leaves it, each of the six setters sets
  \<open>needsUpdate\<close> on the first binding of the material, which stays the buffer binding
  over the material's 32-byte buffer. The flag view lies in that buffer, at byte 24, and
  the two texture setters set or clear their bit there. With the flag set, binding the
  uniform in the next frame writes the 32 bytes to the GPU buffer cached for it.
\<close>

theorem pbr_setter_dirty:
  assumes ok: "pbr_ok m s"
  shows "(let s' = assign env m op s;
              u0 = uniform_arrays s' (uniforms m) ! 0
          in needsUpdate (uniform_objects s' u0) = Some True \<and>
             u0 = uniform_arrays s (uniforms m) ! 0 \<and>
             value' (uniform_objects s' u0) = ArrayBuffer (pbrBuffer m) \<and>
             view_buffer (pbrFlag m) = pbrBuffer m \<and>
             view_byteOffset (pbrFlag m) = 24 \<and>
             byteLength s' (ArrayBuffer (pbrBuffer m)) = 32 \<and>
             pbr_ok m s' \<and>
             (\<forall>v. op = AlbedoTexture v \<longrightarrow>
                array_buffers s' (pbrBuffer m) ! 6 =
                  setBitOfValue env (array_buffers s (pbrBuffer m) ! 6) 0 (v \<noteq> None)) \<and>
             (\<forall>v. op = OcclusionRoughnessMetallicTexture v \<longrightarrow>
                array_buffers s' (pbrBuffer m) ! 6 =
                  setBitOfValue env (array_buffers s (pbrBuffer m) ! 6) 1 (v \<noteq> None)) \<and>
             (\<forall>i b. uniformBufferCache s' u0 = Some b \<longrightarrow>
                bind_uniform i u0 s' =
                  ((i, BufferResource b),
                   set_uniform_needsUpdate u0 False
                     (emit (WriteBuffer b 0 32 (array_buffers s' (pbrBuffer m))) s'))))"
proof -
  let ?s = "assign env m op s"
  let ?u = "uniform_arrays s (uniforms m) ! 0"
  have ok': "pbr_ok m ?s"
    using ok by (rule assign_ok)
  have u: "uniform_arrays ?s (uniforms m) ! 0 = ?u"
    by (rule assign_first)
  have dirty: "needsUpdate (uniform_objects ?s ?u) = Some True"
    by (simp add: assign_objects)
  have buf: "is_buffer (uniform_objects ?s ?u)"
    and val: "value' (uniform_objects ?s ?u) = ArrayBuffer (pbrBuffer m)"
    and len: "length (array_buffers ?s (pbrBuffer m)) = 8"
    and flag: "pbrFlag m = \<lparr>view_buffer = pbrBuffer m, view_byteOffset = 24, view_length = 1\<rparr>"
    using ok' by (simp_all add: pbr_ok_def u)
  have bytes: "byteLength ?s (ArrayBuffer (pbrBuffer m)) = 32"
    by (simp add: byteLength_def len)
  have upload: "bind_uniform i ?u ?s =
      ((i, BufferResource b),
       set_uniform_needsUpdate ?u False
         (emit (WriteBuffer b 0 32 (array_buffers ?s (pbrBuffer m))) ?s))"
    if "uniformBufferCache ?s ?u = Some b" for i b
    using bind_uniform_cached_dirty [OF buf dirty that, of i]
    by (simp add: val queue_writeBuffer_def bytes contents_def)
  show ?thesis
    unfolding Let_def u
    using dirty val bytes ok' assign_flag [OF ok] upload
    by (simp add: flag)
qed

lemma new_PBRMaterial_ok:
  "pbr_ok (fst (new_PBRMaterial env options s)) (snd (new_PBRMaterial env options s))"
  by (simp add: pbr_ok_def new_PBRMaterial_def new_ref_def new_uniform_def Let_def split_def
      Material.defs PBRMaterial.defs)

lemma new_PBRMaterial_blank:
  "array_buffers (snd (new_PBRMaterial sample_pbr_env no_options blank)) 1000 =
     [0, 0.5, 1, 0.5, 0.5, 1, 0, 0]"
  "uniform_arrays (snd (new_PBRMaterial sample_pbr_env no_options blank))
     (uniforms (fst (new_PBRMaterial sample_pbr_env no_options blank))) = [1001, 1002, 50, 50, 1003]"
  "pbrBuffer (fst (new_PBRMaterial sample_pbr_env no_options blank)) = 1000"
  by (simp_all add: new_PBRMaterial_def new_ref_def new_uniform_def Let_def split_def
      Material.defs PBRMaterial.defs sample_pbr_env_def no_options_def blank_def
      put_Vec3_def view_put_def view_get_def or_else_def)
     (simp add: eval_nat_numeral)

theorem pbr_setter_dirty_witness:
  "(let m = fst (new_PBRMaterial sample_pbr_env no_options blank);
        s = snd (new_PBRMaterial sample_pbr_env no_options blank);
        s' = assign sample_pbr_env m (AlbedoTexture (Some 60)) s
    in uniform_arrays s' (uniforms m) ! 0 = 1001 \<and>
       needsUpdate (uniform_objects s' 1001) = Some True \<and>
       value' (uniform_objects s' 1001) = ArrayBuffer 1000 \<and>
       array_buffers s 1000 ! 6 = 0 \<and>
       array_buffers s' 1000 ! 6 = 1 \<and>
       byteLength s' (ArrayBuffer 1000) = 32)"
proof -
  have bit: "setBitOfValue sample_pbr_env 0 0 True = 1"
    by (simp add: sample_pbr_env_def)
  have ok: "pbr_ok (fst (new_PBRMaterial sample_pbr_env no_options blank))
                   (snd (new_PBRMaterial sample_pbr_env no_options blank))"
    by (rule new_PBRMaterial_ok)
  have u0: "uniform_arrays
              (assign sample_pbr_env (fst (new_PBRMaterial sample_pbr_env no_options blank))
                 (AlbedoTexture (Some 60)) (snd (new_PBRMaterial sample_pbr_env no_options blank)))
              (uniforms (fst (new_PBRMaterial sample_pbr_env no_options blank))) ! 0 = 1001"
    unfolding assign_first by (simp add: new_PBRMaterial_blank)
  from pbr_setter_dirty [OF ok, of sample_pbr_env "AlbedoTexture (Some 60)"]
  show ?thesis
    unfolding Let_def u0
    by (simp add: new_PBRMaterial_blank bit del: assign.simps)
qed

end
